theory Spec2Isabelle
  imports Complex_Main
begin

section \<open>Numbers, dates and the trackers' data\<close>

text \<open>
  The repository holds two trackers: the basic \<open>NiftyTracker\<close> (app.js) and the enhanced
  \<open>NiftyEMATracker\<close>. Both compute with JavaScript numbers. They are modelled here as exact
  reals: rounding, \<open>NaN\<close> and the infinities of IEEE doubles are outside the model, and
  a theorem whose statement depends on a quotient assumes the divisor non-zero (a positive
  period, a non-zero all-time high), where the JavaScript division is an ordinary one.

  A bar's \<open>date\<close> is the string \<open>YYYY-MM-DD\<close> of a UTC day
  (\<open>new Date(timestamp * 1000).toISOString().split('T')[0]\<close>); the model keeps the number of
  that day since the epoch. \<open>Date.now()\<close> and \<open>new Date()\<close> are an explicit argument
  \<open>now\<close>, in milliseconds.

  A JSON value that is either a number or \<open>null\<close> is a \<open>real option\<close>, with \<open>None\<close>
  for \<open>null\<close>. Reading an array out of range gives \<open>undefined\<close> in JavaScript; \<open>js_nth\<close>
  returns \<open>None\<close> there.
\<close>

definition js_nth :: "'a list \<Rightarrow> nat \<Rightarrow> 'a option" where
  "js_nth xs i = (if i < length xs then Some (xs ! i) else None)"

text \<open>\<open>Number(null)\<close> is \<open>0\<close>: a \<open>null\<close> that reaches arithmetic counts as zero.\<close>

definition to_number :: "real option \<Rightarrow> real" where
  "to_number v = (case v of None \<Rightarrow> 0 | Some x \<Rightarrow> x)"

text \<open>\<open>xs.slice(-n)\<close>: the last \<open>n\<close> elements; \<open>slice(-0)\<close> is \<open>slice(0)\<close>, the whole array.\<close>

definition slice_last :: "nat \<Rightarrow> 'a list \<Rightarrow> 'a list" where
  "slice_last n xs = (if n = 0 then xs else drop (length xs - n) xs)"

record bar =
  date :: int
  close :: "real option"
  high :: "real option"
  low :: "real option"
  open_price :: "real option"
  volume :: "real option"

datatype crossover_type = BULLISH_CROSS | BEARISH_CROSS

text \<open>A crossover event \<open>{date, type, price, ema20, ema50}\<close>.\<close>

record crossover =
  x_date :: int
  x_type :: crossover_type
  x_price :: "real option"
  x_ema20 :: real
  x_ema50 :: real

record ema_data =
  ema20 :: "real list"
  ema50 :: "real list"
  crossovers :: "crossover list"

text \<open>The quote snapshot \<open>this.data\<close>; \<open>last_updated\<close> is the instant of its ISO string.\<close>

record quote =
  current_price :: real
  previous_close :: real
  day_open :: real
  high_52w :: real
  low_52w :: real
  all_time_high :: real
  pe_ratio :: real
  rsi :: real
  dma_200 :: real
  last_updated :: int

text \<open>
  What \<open>cacheData\<close> writes under a key: \<open>{data, timestamp, version}\<close>. The three keys the
  tracker uses hold a quote snapshot, the bar list and the EMA bundle. \<open>JSON.stringify\<close>
  followed by \<open>JSON.parse\<close> is the identity on these values (finite numbers, strings,
  \<open>null\<close>, arrays and plain objects), so the store keeps the value itself: every stored
  string is one that \<open>JSON.stringify\<close> wrote, and \<open>JSON.parse\<close> does not throw on it.
  \<open>localStorage.setItem\<close> is taken to succeed.
\<close>

datatype cache_payload =
    CachedQuote quote
  | CachedBars "bar list"
  | CachedEma ema_data

record cache_entry =
  c_data :: cache_payload
  c_timestamp :: int
  c_version :: string

text \<open>
  The state of a \<open>NiftyEMATracker\<close>: the fields the engine reads and writes, the fallback
  bar list (built once, from random numbers, by the constructor) and the browser's
  \<open>localStorage\<close>.
\<close>

record tracker =
  data :: "quote option"
  historicalData :: "bar list"
  emaData :: ema_data
  FALLBACK_HISTORICAL :: "bar list"
  localStorage :: "string \<rightharpoonup> cache_entry"

subsection \<open>Calculation constants (\<open>this.THRESHOLDS\<close>, \<open>this.FALLBACK_DATA\<close>)\<close>

text \<open>
  Both trackers declare the same values. The fallback object of the enhanced tracker also
  carries display values (\<open>ema_20\<close>, \<open>ema_trend\<close>, ...) that no computation reads.
\<close>

definition RSI_OVERSOLD :: real where "RSI_OVERSOLD = 30"
definition RSI_OVERBOUGHT :: real where "RSI_OVERBOUGHT = 70"
definition PE_ATTRACTIVE :: real where "PE_ATTRACTIVE = 21"
definition PE_EXPENSIVE :: real where "PE_EXPENSIVE = 25"
definition CORRECTION_THRESHOLD :: real where "CORRECTION_THRESHOLD = 10"
definition ALL_TIME_HIGH :: real where "ALL_TIME_HIGH = 2627735 / 100"
definition EMA_PERIOD_20 :: nat where "EMA_PERIOD_20 = 20"
definition EMA_PERIOD_50 :: nat where "EMA_PERIOD_50 = 50"

definition FALLBACK_DATA :: quote where
  "FALLBACK_DATA =
     \<lparr> current_price = 24741, previous_close = 247343 / 10, day_open = 2481885 / 100,
       high_52w = 2627735 / 100, low_52w = 2174365 / 100, all_time_high = 2627735 / 100,
       pe_ratio = 2173 / 100, rsi = 5321 / 100, dma_200 = 24631, last_updated = 0 \<rparr>"

section \<open>The basic tracker (app.js)\<close>

subsection \<open>Null filtering in \<open>processYahooData\<close>\<close>

text \<open>
  \<^verbatim>\<open>
  const prices = quote.close.filter(p => p !== null);
  const highs = quote.high.filter(h => h !== null);
  const lows = quote.low.filter(l => l !== null);
  ...
  const dma200 = this.calculate200DMA(prices);
  const rsi = this.calculateRSI(prices);
  \<close>
  The arrays come from \<open>response.json()\<close>, so an element is a number or \<open>null\<close>, and the
  elements the filter keeps are numbers. \<open>processYahooData_series\<close> is this part of
  \<open>processYahooData\<close>; the fields of \<open>this.data\<close> taken from \<open>meta\<close> are not part of the
  indicator computation and are not modelled.
\<close>

definition filter_non_null :: "real option list \<Rightarrow> real list" where
  "filter_non_null xs = map to_number (filter (\<lambda>p. p \<noteq> None) xs)"

definition calculate200DMA :: "real list \<Rightarrow> real" where
  "calculate200DMA prices =
     (if length prices < 200 then dma_200 FALLBACK_DATA
      else
        let last200 = slice_last 200 prices;
            sum = foldl (\<lambda>acc price. acc + price) 0 last200
        in sum / real (length last200))"

text \<open>
  \<^verbatim>\<open>
  calculateRSI(prices, period = 14) {
      if (prices.length < period + 1) return this.FALLBACK_DATA.rsi;
      const changes = [];
      for (let i = 1; i < prices.length; i++) changes.push(prices[i] - prices[i - 1]);
      const recentChanges = changes.slice(-period);
      const gains = recentChanges.filter(change => change > 0);
      const losses = recentChanges.filter(change => change < 0).map(loss => Math.abs(loss));
      const avgGain = gains.length ? gains.reduce((acc, gain) => acc + gain, 0) / period : 0;
      const avgLoss = losses.length ? losses.reduce((acc, loss) => acc + loss, 0) / period : 0;
      if (avgLoss === 0) return 100;
      const rs = avgGain / avgLoss;
      return 100 - (100 / (1 + rs));
  }
  \<close>
\<close>

definition price_changes :: "real list \<Rightarrow> real list" where
  "price_changes prices = map (\<lambda>i. prices ! i - prices ! (i - 1)) [1..<length prices]"

definition recentChanges :: "real list \<Rightarrow> nat \<Rightarrow> real list" where
  "recentChanges prices period = slice_last period (price_changes prices)"

definition calculateRSI :: "real list \<Rightarrow> nat \<Rightarrow> real" where
  "calculateRSI prices period =
     (if length prices < period + 1 then rsi FALLBACK_DATA
      else
        let gains = filter (\<lambda>change. change > 0) (recentChanges prices period);
            losses = map abs (filter (\<lambda>change. change < 0) (recentChanges prices period));
            avgGain = (if gains \<noteq> [] then foldl (\<lambda>acc gain. acc + gain) 0 gains / real period
                       else 0);
            avgLoss = (if losses \<noteq> [] then foldl (\<lambda>acc loss. acc + loss) 0 losses / real period
                       else 0)
        in if avgLoss = 0 then 100
           else let rs = avgGain / avgLoss in 100 - 100 / (1 + rs))"

record yahoo_series =
  y_prices :: "real list"
  y_highs :: "real list"
  y_lows :: "real list"
  y_dma200 :: real
  y_rsi :: real

definition processYahooData_series ::
  "real option list \<Rightarrow> real option list \<Rightarrow> real option list \<Rightarrow> yahoo_series" where
  "processYahooData_series quote_close quote_high quote_low =
     (let prices = filter_non_null quote_close;
          highs = filter_non_null quote_high;
          lows = filter_non_null quote_low
      in \<lparr> y_prices = prices, y_highs = highs, y_lows = lows,
           y_dma200 = calculate200DMA prices, y_rsi = calculateRSI prices 14 \<rparr>)"

subsection \<open>The signal badge (\<open>updateUI\<close>, \<open>updateInvestmentSignal\<close>)\<close>

text \<open>
  \<^verbatim>\<open>
  const correctionPercent =
      ((this.data.current_price - this.data.all_time_high) / this.data.all_time_high) * 100;
  ...
  const conditions = {
      correction: Math.abs(correctionPercent) >= this.THRESHOLDS.CORRECTION_THRESHOLD,
      rsi: this.data.rsi < this.THRESHOLDS.RSI_OVERSOLD,
      pe: this.data.pe_ratio < this.THRESHOLDS.PE_ATTRACTIVE
  };
  const allConditionsMet = conditions.correction && conditions.rsi && conditions.pe;
  signalBadge.textContent = allConditionsMet ? 'BUY SIGNAL' : 'WAIT'
  \<close>
  The model returns the three conditions and the badge text instead of writing them to the
  page.
\<close>

record value_conditions =
  vc_correction :: bool
  vc_rsi :: bool
  vc_pe :: bool

definition correctionPercent :: "quote \<Rightarrow> real" where
  "correctionPercent q = ((current_price q - all_time_high q) / all_time_high q) * 100"

definition basic_conditions :: "quote \<Rightarrow> real \<Rightarrow> value_conditions" where
  "basic_conditions q correction =
     \<lparr> vc_correction = (abs correction \<ge> CORRECTION_THRESHOLD),
       vc_rsi = (rsi q < RSI_OVERSOLD),
       vc_pe = (pe_ratio q < PE_ATTRACTIVE) \<rparr>"

definition updateInvestmentSignal :: "quote \<Rightarrow> real \<Rightarrow> value_conditions \<times> string" where
  "updateInvestmentSignal q correction =
     (let conditions = basic_conditions q correction;
          allConditionsMet = (vc_correction conditions \<and> vc_rsi conditions \<and> vc_pe conditions)
      in (conditions, if allConditionsMet then ''BUY SIGNAL'' else ''WAIT''))"

section \<open>The enhanced tracker (NiftyEMATracker)\<close>

subsection \<open>The cache (\<open>cacheData\<close>, \<open>loadCachedData\<close>)\<close>

text \<open>
  \<^verbatim>\<open>
  cacheData(key, data) {
      const cacheData = { data: data, timestamp: Date.now(), version: '2.0' };
      localStorage.setItem(key, JSON.stringify(cacheData));
  }
  \<close>
\<close>

definition cacheData :: "int \<Rightarrow> string \<Rightarrow> cache_payload \<Rightarrow> tracker \<Rightarrow> tracker" where
  "cacheData now key d st =
     st\<lparr>localStorage := (localStorage st)
          (key \<mapsto> \<lparr> c_data = d, c_timestamp = now, c_version = ''2.0'' \<rparr>)\<rparr>"

text \<open>
  \<^verbatim>\<open>
  const currentData = localStorage.getItem('nifty_current');
  ...
  if (currentData) {
      const cached = JSON.parse(currentData);
      if (cached.version === '2.0' && Date.now() - cached.timestamp < 600000) { // 10 min
          this.data = cached.data;
      }
  }
  \<close>
  and the same for \<open>nifty_historical\<close> and \<open>nifty_ema\<close> with \<open>3600000\<close> (1 hour). Each key is
  written by one call of \<open>cacheData\<close> only, with its own kind of value
  (\<open>fetchNiftyData\<close>, \<open>fetchHistoricalData\<close>, \<open>calculateEMAs\<close>); an entry of another kind under
  a key is outside the typed state and leaves the field as it is.
\<close>

definition entry_fresh :: "int \<Rightarrow> int \<Rightarrow> cache_entry \<Rightarrow> bool" where
  "entry_fresh now window cached =
     (c_version cached = ''2.0'' \<and> now - c_timestamp cached < window)"

definition load_current :: "int \<Rightarrow> tracker \<Rightarrow> tracker" where
  "load_current now st =
     (case localStorage st ''nifty_current'' of
        None \<Rightarrow> st
      | Some cached \<Rightarrow>
          if entry_fresh now 600000 cached
          then (case c_data cached of CachedQuote q \<Rightarrow> st\<lparr>data := Some q\<rparr> | _ \<Rightarrow> st)
          else st)"

definition load_historical :: "int \<Rightarrow> tracker \<Rightarrow> tracker" where
  "load_historical now st =
     (case localStorage st ''nifty_historical'' of
        None \<Rightarrow> st
      | Some cached \<Rightarrow>
          if entry_fresh now 3600000 cached
          then (case c_data cached of CachedBars bs \<Rightarrow> st\<lparr>historicalData := bs\<rparr> | _ \<Rightarrow> st)
          else st)"

definition load_ema :: "int \<Rightarrow> tracker \<Rightarrow> tracker" where
  "load_ema now st =
     (case localStorage st ''nifty_ema'' of
        None \<Rightarrow> st
      | Some cached \<Rightarrow>
          if entry_fresh now 3600000 cached
          then (case c_data cached of CachedEma e \<Rightarrow> st\<lparr>emaData := e\<rparr> | _ \<Rightarrow> st)
          else st)"

definition loadCachedData :: "int \<Rightarrow> tracker \<Rightarrow> tracker" where
  "loadCachedData now st = load_ema now (load_historical now (load_current now st))"

subsection \<open>Historical bars (\<open>processHistoricalData\<close>)\<close>

text \<open>
  \<^verbatim>\<open>
  processHistoricalData(data) {
      try {
          const result = data.chart.result[0];
          const timestamps = result.timestamp;
          const quotes = result.indicators.quote[0];
          this.historicalData = timestamps.map((timestamp, index) => ({
              date: new Date(timestamp * 1000).toISOString().split('T')[0],
              close: quotes.close[index], high: quotes.high[index], low: quotes.low[index],
              open: quotes.open[index], volume: quotes.volume[index]
          })).filter(item => item.close !== null);
      } catch (error) {
          this.historicalData = this.FALLBACK_HISTORICAL;
      }
  }
  \<close>
  A response without \<open>chart.result[0]\<close>, \<open>timestamp\<close> or \<open>indicators.quote[0]\<close> makes the
  \<open>try\<close> block throw: it is \<open>None\<close> here. A well-formed one carries the timestamps (in
  seconds) and five arrays indexed like them; the theorems assume the arrays as long as
  \<open>timestamp\<close>, as the data source sends them, so that no lookup is out of range.

  \<open>new Date(t)\<close> is an invalid date when \<open>t\<close> is beyond 8.64e15 milliseconds on either side
  of the epoch, and \<open>toISOString\<close> of an invalid date throws a \<open>RangeError\<close>. The callback of
  \<open>map\<close> runs on every timestamp before the filter, so one timestamp out of that range
  makes the \<open>try\<close> block throw and the \<open>catch\<close> branch installs the fallback bars.
\<close>

record chart_result =
  r_timestamp :: "int list"
  r_close :: "real option list"
  r_high :: "real option list"
  r_low :: "real option list"
  r_open :: "real option list"
  r_volume :: "real option list"

definition historical_item :: "chart_result \<Rightarrow> int \<Rightarrow> nat \<Rightarrow> bar" where
  "historical_item result timestamp index =
     \<lparr> date = timestamp div 86400,
       close = r_close result ! index,
       high = r_high result ! index,
       low = r_low result ! index,
       open_price = r_open result ! index,
       volume = r_volume result ! index \<rparr>"

definition valid_time :: "int \<Rightarrow> bool" where
  "valid_time timestamp = (abs (timestamp * 1000) \<le> 8640000000000000)"

definition processHistoricalData :: "chart_result option \<Rightarrow> tracker \<Rightarrow> tracker" where
  "processHistoricalData response st =
     (case response of
        None \<Rightarrow> st\<lparr>historicalData := FALLBACK_HISTORICAL st\<rparr>
      | Some result \<Rightarrow>
          if list_all valid_time (r_timestamp result)
          then st\<lparr>historicalData :=
                 filter (\<lambda>item. close item \<noteq> None)
                   (map (\<lambda>(timestamp, index). historical_item result timestamp index)
                      (zip (r_timestamp result) [0..<length (r_timestamp result)]))\<rparr>
          else st\<lparr>historicalData := FALLBACK_HISTORICAL st\<rparr>)"

subsection \<open>Moving averages (\<open>calculateEMA\<close>, \<open>calculateEMAs\<close>)\<close>

text \<open>
  \<^verbatim>\<open>
  calculateEMA(prices, period) {
      if (prices.length < period) return [];
      const k = 2 / (period + 1);
      const emaValues = [];
      let sma = 0;
      for (let i = 0; i < period; i++) { sma += prices[i]; }
      sma = sma / period;
      emaValues.push(sma);
      for (let i = period; i < prices.length; i++) {
          const ema = (prices[i] * k) + (emaValues[emaValues.length - 1] * (1 - k));
          emaValues.push(ema);
      }
      return emaValues;
  }
  \<close>
  The two loops run over indices below \<open>prices.length\<close>, so every \<open>prices[i]\<close> is in range,
  and \<open>emaValues\<close> is never empty when its last element is read.
\<close>

definition ema_step :: "real list \<Rightarrow> real \<Rightarrow> real list \<Rightarrow> nat \<Rightarrow> real list" where
  "ema_step prices k emaValues i =
     emaValues @ [prices ! i * k + last emaValues * (1 - k)]"

definition calculateEMA :: "real list \<Rightarrow> nat \<Rightarrow> real list" where
  "calculateEMA prices period =
     (if length prices < period then []
      else
        let k = 2 / (real period + 1);
            sma = foldl (\<lambda>sma i. sma + prices ! i) 0 [0..<period];
            sma = sma / real period
        in foldl (ema_step prices k) [sma] [period..<length prices])"

text \<open>
  The values the second loop appends, written by recursion over the remaining prices:
  \<open>ema_from k e ps\<close> starts from the previous value \<open>e\<close>. \<open>calculateEMA_by_recursion\<close> below
  shows that \<open>calculateEMA\<close> computes the seed followed by these values.
\<close>

fun ema_from :: "real \<Rightarrow> real \<Rightarrow> real list \<Rightarrow> real list" where
  "ema_from k e [] = []"
| "ema_from k e (p # ps) = (p * k + e * (1 - k)) # ema_from k (p * k + e * (1 - k)) ps"

text \<open>
  \<^verbatim>\<open>
  calculateEMAs() {
      if (this.historicalData.length < 50) return;
      const closePrices = this.historicalData.map(item => item.close);
      this.emaData.ema20 = this.calculateEMA(closePrices, this.THRESHOLDS.EMA_PERIOD_20);
      this.emaData.ema50 = this.calculateEMA(closePrices, this.THRESHOLDS.EMA_PERIOD_50);
      this.cacheData('nifty_ema', this.emaData);
  }
  \<close>
  The closes are read as numbers where \<open>calculateEMA\<close> computes with them; a \<open>null\<close> close
  would count as 0 there, and \<open>processHistoricalData\<close> leaves none in the bar list.
\<close>

definition closePrices :: "tracker \<Rightarrow> real list" where
  "closePrices st = map (\<lambda>item. to_number (close item)) (historicalData st)"

definition calculateEMAs :: "int \<Rightarrow> tracker \<Rightarrow> tracker" where
  "calculateEMAs now st =
     (if length (historicalData st) < 50 then st
      else
        let e = (emaData st)
                  \<lparr> ema20 := calculateEMA (closePrices st) EMA_PERIOD_20,
                    ema50 := calculateEMA (closePrices st) EMA_PERIOD_50 \<rparr>
        in cacheData now ''nifty_ema'' (CachedEma e) (st\<lparr>emaData := e\<rparr>))"

subsection \<open>Crossover detection (\<open>detectCrossovers\<close>)\<close>

text \<open>
  \<^verbatim>\<open>
  detectCrossovers() {
      if (this.emaData.ema20.length < 2 || this.emaData.ema50.length < 2) return;
      const crossovers = [];
      const startIndex = Math.max(this.THRESHOLDS.EMA_PERIOD_50 - this.THRESHOLDS.EMA_PERIOD_20, 1);
      for (let i = startIndex; i < this.emaData.ema20.length; i++) {
          const current20 = this.emaData.ema20[i];
          const current50 = this.emaData.ema50[i - startIndex + this.THRESHOLDS.EMA_PERIOD_20 - 1];
          const prev20 = this.emaData.ema20[i - 1];
          const prev50 = this.emaData.ema50[i - startIndex + this.THRESHOLDS.EMA_PERIOD_20 - 2];
          if (!current20 || !current50 || !prev20 || !prev50) continue;
          let crossoverType = null;
          if (prev20 <= prev50 && current20 > current50) crossoverType = 'BULLISH_CROSS';
          else if (prev20 >= prev50 && current20 < current50) crossoverType = 'BEARISH_CROSS';
          if (crossoverType) {
              crossovers.push({ date: this.historicalData[i].date, type: crossoverType,
                                price: this.historicalData[i].close,
                                ema20: current20, ema50: current50 });
          }
      }
      this.emaData.crossovers = crossovers;
  }
  \<close>
  \<open>!v\<close> holds of \<open>undefined\<close> and of \<open>0\<close>. Reading \<open>.date\<close> of \<open>this.historicalData[i]\<close> when
  the bar list has no index \<open>i\<close> throws a \<open>TypeError\<close>, which nothing in the method catches.
  With the periods 20 and 50 every index computed in the loop is a natural number.
\<close>

datatype js_error = TypeError

definition falsy :: "real option \<Rightarrow> bool" where
  "falsy v = (v = None \<or> v = Some 0)"

definition crossoverType :: "real \<Rightarrow> real \<Rightarrow> real \<Rightarrow> real \<Rightarrow> crossover_type option" where
  "crossoverType prev20 prev50 current20 current50 =
     (if prev20 \<le> prev50 \<and> current20 > current50 then Some BULLISH_CROSS
      else if prev20 \<ge> prev50 \<and> current20 < current50 then Some BEARISH_CROSS
      else None)"

definition current20_at :: "tracker \<Rightarrow> nat \<Rightarrow> real option" where
  "current20_at st i = js_nth (ema20 (emaData st)) i"

definition current50_at :: "tracker \<Rightarrow> nat \<Rightarrow> nat \<Rightarrow> real option" where
  "current50_at st start i =
     js_nth (ema50 (emaData st)) (i - start + EMA_PERIOD_20 - 1)"

definition prev20_at :: "tracker \<Rightarrow> nat \<Rightarrow> real option" where
  "prev20_at st i = js_nth (ema20 (emaData st)) (i - 1)"

definition prev50_at :: "tracker \<Rightarrow> nat \<Rightarrow> nat \<Rightarrow> real option" where
  "prev50_at st start i =
     js_nth (ema50 (emaData st)) (i - start + EMA_PERIOD_20 - 2)"

text \<open>One pass of the loop body: the events it pushes, or the error it throws.\<close>

definition detect_step :: "tracker \<Rightarrow> nat \<Rightarrow> nat \<Rightarrow> js_error + crossover list" where
  "detect_step st start i =
     (let current20 = current20_at st i;
          current50 = current50_at st start i;
          prev20 = prev20_at st i;
          prev50 = prev50_at st start i
      in if falsy current20 \<or> falsy current50 \<or> falsy prev20 \<or> falsy prev50 then Inr []
         else
           (case crossoverType (to_number prev20) (to_number prev50)
                    (to_number current20) (to_number current50) of
              None \<Rightarrow> Inr []
            | Some t \<Rightarrow>
                (case js_nth (historicalData st) i of
                   None \<Rightarrow> Inl TypeError
                 | Some item \<Rightarrow>
                     Inr [\<lparr> x_date = date item, x_type = t, x_price = close item,
                            x_ema20 = to_number current20, x_ema50 = to_number current50 \<rparr>])))"

fun detect_loop ::
  "tracker \<Rightarrow> nat \<Rightarrow> nat list \<Rightarrow> crossover list \<Rightarrow> js_error + crossover list" where
  "detect_loop st start [] found = Inr found"
| "detect_loop st start (i # rest) found =
     (case detect_step st start i of
        Inl e \<Rightarrow> Inl e
      | Inr pushed \<Rightarrow> detect_loop st start rest (found @ pushed))"

definition startIndex :: nat where
  "startIndex = max (EMA_PERIOD_50 - EMA_PERIOD_20) 1"

definition detectCrossovers :: "tracker \<Rightarrow> js_error + tracker" where
  "detectCrossovers st =
     (if length (ema20 (emaData st)) < 2 \<or> length (ema50 (emaData st)) < 2 then Inr st
      else
        (case detect_loop st startIndex [startIndex..<length (ema20 (emaData st))] [] of
           Inl e \<Rightarrow> Inl e
         | Inr found \<Rightarrow> Inr (st\<lparr>emaData := (emaData st)\<lparr>crossovers := found\<rparr>\<rparr>)))"

subsection \<open>The current trend (\<open>getCurrentEMATrend\<close>)\<close>

text \<open>
  \<^verbatim>\<open>
  getCurrentEMATrend() {
      if (this.emaData.ema20.length === 0 || this.emaData.ema50.length === 0) {
          return { trend: 'UNKNOWN', ema20: null, ema50: null,
                   lastCrossover: null, daysSinceCross: null };
      }
      const current20 = this.emaData.ema20[this.emaData.ema20.length - 1];
      const current50 = this.emaData.ema50[this.emaData.ema50.length - 1];
      const trend = current20 > current50 ? 'BULLISH' : 'BEARISH';
      const lastCrossover = this.emaData.crossovers.length > 0
          ? this.emaData.crossovers[this.emaData.crossovers.length - 1] : null;
      let daysSinceCross = null;
      if (lastCrossover) {
          const crossDate = new Date(lastCrossover.date);
          const today = new Date();
          daysSinceCross = Math.floor((today - crossDate) / (1000 * 60 * 60 * 24));
      }
      return { trend, ema20: current20, ema50: current50, lastCrossover, daysSinceCross };
  }
  \<close>
  \<open>new Date('YYYY-MM-DD')\<close> is midnight UTC of that day, \<open>86400000\<close> times its day number.
\<close>

datatype trend_kind = BULLISH | BEARISH | UNKNOWN

record ema_trend =
  trend :: trend_kind
  t_ema20 :: "real option"
  t_ema50 :: "real option"
  lastCrossover :: "crossover option"
  daysSinceCross :: "int option"

definition getCurrentEMATrend :: "int \<Rightarrow> tracker \<Rightarrow> ema_trend" where
  "getCurrentEMATrend now st =
     (if length (ema20 (emaData st)) = 0 \<or> length (ema50 (emaData st)) = 0
      then \<lparr> trend = UNKNOWN, t_ema20 = None, t_ema50 = None,
             lastCrossover = None, daysSinceCross = None \<rparr>
      else
        let current20 = last (ema20 (emaData st));
            current50 = last (ema50 (emaData st));
            lastCross = (if length (crossovers (emaData st)) > 0
                         then Some (last (crossovers (emaData st))) else None);
            days = (case lastCross of
                      None \<Rightarrow> None
                    | Some c \<Rightarrow> Some ((now - x_date c * 86400000) div 86400000))
        in \<lparr> trend = (if current20 > current50 then BULLISH else BEARISH),
             t_ema20 = Some current20, t_ema50 = Some current50,
             lastCrossover = lastCross, daysSinceCross = days \<rparr>)"

subsection \<open>Investment signals (\<open>calculateInvestmentSignals\<close>)\<close>

text \<open>
  \<^verbatim>\<open>
  calculateCorrection() {
      if (!this.data) return 0;
      return ((this.data.current_price - this.data.all_time_high) / this.data.all_time_high) * 100;
  }
  calculateInvestmentSignals() {
      if (!this.data) return null;
      const correction = this.calculateCorrection();
      const valueConditions = {
          correction: correction <= -this.THRESHOLDS.CORRECTION_THRESHOLD,
          rsi: this.data.rsi < this.THRESHOLDS.RSI_OVERSOLD,
          pe: this.data.pe_ratio < this.THRESHOLDS.PE_ATTRACTIVE
      };
      const valueSignal = Object.values(valueConditions).every(c => c) ? 'BUY' : 'WAIT';
      const emaTrend = this.getCurrentEMATrend();
      const momentumConditions = {
          bullishTrend: emaTrend.trend === 'BULLISH',
          recentCross: emaTrend.lastCrossover &&
                      emaTrend.lastCrossover.type === 'BULLISH_CROSS' &&
                      emaTrend.daysSinceCross < 30,
          priceAboveEMAs: this.data.current_price > emaTrend.ema20 &&
                         this.data.current_price > emaTrend.ema50
      };
      const momentumSignal = momentumConditions.bullishTrend ? 'BUY' :
                            (emaTrend.trend === 'BEARISH' ? 'AVOID' : 'WAIT');
      let combinedSignal = 'WAIT';
      if (valueSignal === 'BUY' && momentumSignal === 'BUY') combinedSignal = 'STRONG BUY';
      else if (valueSignal === 'BUY' || momentumSignal === 'BUY') combinedSignal = 'BUY';
      else if (momentumSignal === 'AVOID') combinedSignal = 'AVOID';
      return { value: {signal, conditions, description},
               momentum: {signal, conditions, description, trend},
               combined: {signal, description} };
  }
  \<close>
  A comparison with \<open>null\<close> compares with \<open>0\<close>. \<open>recentCross\<close> is kept as its truth value.
\<close>

datatype signal = BUY | WAIT | AVOID | STRONG_BUY

record momentum_conditions =
  bullishTrend :: bool
  recentCross :: bool
  priceAboveEMAs :: bool

record signals =
  value_signal :: signal
  value_conds :: value_conditions
  value_description :: string
  momentum_signal :: signal
  momentum_conds :: momentum_conditions
  momentum_description :: string
  momentum_trend :: ema_trend
  combined_signal :: signal
  combined_description :: string

definition calculateCorrection :: "tracker \<Rightarrow> real" where
  "calculateCorrection st =
     (case data st of
        None \<Rightarrow> 0
      | Some q \<Rightarrow> ((current_price q - all_time_high q) / all_time_high q) * 100)"

definition days_less :: "int option \<Rightarrow> int \<Rightarrow> bool" where
  "days_less d n = (case d of None \<Rightarrow> 0 < n | Some x \<Rightarrow> x < n)"

definition price_above :: "real \<Rightarrow> real option \<Rightarrow> bool" where
  "price_above p e = (p > to_number e)"

definition getValueStrategyDescription :: "value_conditions \<Rightarrow> string" where
  "getValueStrategyDescription conditions =
     (let metCount = length (filter (\<lambda>c. c)
                        [vc_correction conditions, vc_rsi conditions, vc_pe conditions])
      in if metCount = 3 then ''All value conditions met - Strong buy opportunity''
         else if metCount = 2 then ''Most value conditions met - Consider buying''
         else if metCount = 1 then ''Few conditions met - Wait for better entry''
         else ''No value conditions met - Avoid buying'')"

definition getMomentumStrategyDescription :: "ema_trend \<Rightarrow> string" where
  "getMomentumStrategyDescription t =
     (if trend t = BULLISH then
        (if days_less (daysSinceCross t) 10 then ''Fresh bullish crossover - Strong momentum''
         else if days_less (daysSinceCross t) 30 then ''Bullish trend continues - Good momentum''
         else ''Extended bullish trend - Monitor for reversal'')
      else if trend t = BEARISH then ''Bearish trend - Avoid new positions''
      else ''Trend unclear - Wait for confirmation'')"

definition getCombinedDescription :: "signal \<Rightarrow> string" where
  "getCombinedDescription s =
     (case s of
        STRONG_BUY \<Rightarrow> ''Both strategies bullish - Excellent opportunity''
      | BUY \<Rightarrow> ''One strategy bullish - Good opportunity''
      | AVOID \<Rightarrow> ''Bearish momentum - Avoid new positions''
      | WAIT \<Rightarrow> ''Mixed signals - Wait for clarity'')"

definition valueConditions :: "tracker \<Rightarrow> quote \<Rightarrow> value_conditions" where
  "valueConditions st q =
     \<lparr> vc_correction = (calculateCorrection st \<le> - CORRECTION_THRESHOLD),
       vc_rsi = (rsi q < RSI_OVERSOLD),
       vc_pe = (pe_ratio q < PE_ATTRACTIVE) \<rparr>"

definition momentumConditions :: "quote \<Rightarrow> ema_trend \<Rightarrow> momentum_conditions" where
  "momentumConditions q emaTrend =
     \<lparr> bullishTrend = (trend emaTrend = BULLISH),
       recentCross = (case lastCrossover emaTrend of
                        None \<Rightarrow> False
                      | Some c \<Rightarrow> x_type c = BULLISH_CROSS
                                  \<and> days_less (daysSinceCross emaTrend) 30),
       priceAboveEMAs = (price_above (current_price q) (t_ema20 emaTrend)
                         \<and> price_above (current_price q) (t_ema50 emaTrend)) \<rparr>"

definition combine :: "signal \<Rightarrow> signal \<Rightarrow> signal" where
  "combine valueSignal momentumSignal =
     (if valueSignal = BUY \<and> momentumSignal = BUY then STRONG_BUY
      else if valueSignal = BUY \<or> momentumSignal = BUY then BUY
      else if momentumSignal = AVOID then AVOID
      else WAIT)"

definition calculateInvestmentSignals :: "int \<Rightarrow> tracker \<Rightarrow> signals option" where
  "calculateInvestmentSignals now st =
     (case data st of
        None \<Rightarrow> None
      | Some q \<Rightarrow>
          let conditions = valueConditions st q;
              valueSignal = (if vc_correction conditions \<and> vc_rsi conditions \<and> vc_pe conditions
                             then BUY else WAIT);
              emaTrend = getCurrentEMATrend now st;
              momentum = momentumConditions q emaTrend;
              momentumSignal = (if bullishTrend momentum then BUY
                                else if trend emaTrend = BEARISH then AVOID else WAIT);
              combinedSignal = combine valueSignal momentumSignal
          in Some \<lparr> value_signal = valueSignal, value_conds = conditions,
                    value_description = getValueStrategyDescription conditions,
                    momentum_signal = momentumSignal, momentum_conds = momentum,
                    momentum_description = getMomentumStrategyDescription emaTrend,
                    momentum_trend = emaTrend,
                    combined_signal = combinedSignal,
                    combined_description = getCombinedDescription combinedSignal \<rparr>)"

subsection \<open>The constructor's state and sample inputs\<close>

text \<open>
  \<open>new_tracker\<close> is the state the constructor leaves: no quote, no bars, empty EMA
  sequences; the fallback bar list and the browser's store are what they are.
\<close>

definition new_tracker :: "bar list \<Rightarrow> (string \<rightharpoonup> cache_entry) \<Rightarrow> tracker" where
  "new_tracker fallback store =
     \<lparr> data = None, historicalData = [],
       emaData = \<lparr> ema20 = [], ema50 = [], crossovers = [] \<rparr>,
       FALLBACK_HISTORICAL = fallback, localStorage = store \<rparr>"

text \<open>A snapshot with the given price, RSI and PE, the other fields as in the fallback.\<close>

definition sample_quote :: "real \<Rightarrow> real \<Rightarrow> real \<Rightarrow> quote" where
  "sample_quote price r pe =
     FALLBACK_DATA \<lparr> current_price := price, rsi := r, pe_ratio := pe \<rparr>"

text \<open>A tracker holding a snapshot and two EMA sequences, with no crossover recorded.\<close>

definition sample_tracker :: "quote \<Rightarrow> real list \<Rightarrow> real list \<Rightarrow> tracker" where
  "sample_tracker q fast slow =
     (new_tracker [] Map.empty)
       \<lparr> data := Some q, emaData := \<lparr> ema20 = fast, ema50 = slow, crossovers = [] \<rparr> \<rparr>"

text \<open>Bars on consecutive days from day \<open>d\<close> on, with the given closing prices.\<close>

fun bars_from :: "nat \<Rightarrow> real list \<Rightarrow> bar list" where
  "bars_from d [] = []"
| "bars_from d (c # cs) =
     \<lparr> date = int d, close = Some c, high = Some c, low = Some c,
       open_price = Some c, volume = Some 0 \<rparr> # bars_from (Suc d) cs"

definition tracker_with_bars :: "bar list \<Rightarrow> tracker" where
  "tracker_with_bars bs = (new_tracker [] Map.empty) \<lparr> historicalData := bs \<rparr>"

text \<open>The crossovers a run of \<open>detectCrossovers\<close> leaves in the state, or its error.\<close>

definition detected :: "js_error + tracker \<Rightarrow> js_error + crossover list" where
  "detected res = (case res of Inl e \<Rightarrow> Inl e | Inr st \<Rightarrow> Inr (crossovers (emaData st)))"

text \<open>A response of three days whose second bar has no closing price.\<close>

definition sample_chart :: chart_result where
  "sample_chart =
     \<lparr> r_timestamp = [0, 86400, 172800],
       r_close = [Some 1, None, Some 3],
       r_high = [Some 2, None, Some 4],
       r_low = [Some 1, None, Some 2],
       r_open = [Some 1, None, Some 3],
       r_volume = [Some 10, None, Some 30] \<rparr>"

text \<open>A tracker holding the given bars and EMA sequences.\<close>

definition tracker_with_emas :: "bar list \<Rightarrow> real list \<Rightarrow> real list \<Rightarrow> tracker" where
  "tracker_with_emas bs fast slow =
     (tracker_with_bars bs) \<lparr> emaData := \<lparr> ema20 = fast, ema50 = slow, crossovers = [] \<rparr> \<rparr>"

text \<open>What step \<open>i\<close> of the loop of \<open>detectCrossovers\<close> pushes, when it does not throw.\<close>

definition pushed_at :: "tracker \<Rightarrow> nat \<Rightarrow> crossover list" where
  "pushed_at st i = (case detect_step st startIndex i of Inl e \<Rightarrow> [] | Inr pushed \<Rightarrow> pushed)"

text \<open>
  69 bars: 49 closes of 100, one of 1150 (bar 49), then 19 of 121. The fast EMA jumps to
  200 on bar 49 and the slow EMA is seeded with 121 on that bar.
\<close>

definition spike_closes :: "real list" where
  "spike_closes = replicate 49 100 @ [1150] @ replicate 19 121"

definition spike_tracker :: tracker where
  "spike_tracker = calculateEMAs 0 (tracker_with_bars (bars_from 0 spike_closes))"

text \<open>
  The state after a later refresh that brought only 20 bars: \<open>processHistoricalData\<close> has
  replaced the bar list, and \<open>calculateEMAs\<close> has run on it.
\<close>

definition stale_tracker :: tracker where
  "stale_tracker =
     calculateEMAs 1 (spike_tracker \<lparr> historicalData := bars_from 0 (replicate 20 100) \<rparr>)"

text \<open>
  A response of one bar per day from day 0 on, with the given closes in every price array.
\<close>

definition chart_of_closes :: "real option list \<Rightarrow> chart_result" where
  "chart_of_closes cs =
     \<lparr> r_timestamp = map (\<lambda>d. int d * 86400) [0..<length cs],
       r_close = cs, r_high = cs, r_low = cs, r_open = cs, r_volume = cs \<rparr>"

text \<open>
  Two responses of 69 days: in \<open>null_chart\<close> the last 49 closes are \<open>null\<close>, in \<open>clean_chart\<close>
  every close is 100.
\<close>

definition null_chart :: chart_result where
  "null_chart = chart_of_closes (replicate 20 (Some 100) @ replicate 49 None)"

definition clean_chart :: chart_result where
  "clean_chart = chart_of_closes (replicate 69 (Some 100))"

text \<open>
  A refresh of the tracker that holds the EMA sequences of \<open>spike_closes\<close>: the response is
  processed and \<open>calculateEMAs\<close> runs; \<open>detectCrossovers\<close> is the next step of \<open>init\<close> and of
  \<open>manualRefresh\<close>.
\<close>

definition after_refresh :: "chart_result \<Rightarrow> tracker" where
  "after_refresh chart = calculateEMAs 1 (processHistoricalData (Some chart) spike_tracker)"

section \<open>Properties of the moving average\<close>

lemma sma_loop_sum:
  "n \<le> length prices \<Longrightarrow>
     foldl (\<lambda>sma i. sma + prices ! i) (0::real) [0..<n] = sum_list (take n prices)"
proof (induction n)
  case 0
  show ?case by simp
next
  case (Suc n)
  then have "n < length prices" by simp
  then have "take (Suc n) prices = take n prices @ [prices ! n]"
    by (rule take_Suc_conv_app_nth)
  with Suc show ?case by simp
qed

lemma ema_loop_shape:
  assumes "period \<le> n"
  shows "length (foldl (ema_step prices k) [s] [period..<n]) = n - period + 1
       \<and> foldl (ema_step prices k) [s] [period..<n] ! 0 = s
       \<and> (\<forall>i. 0 < i \<and> i < n - period + 1 \<longrightarrow>
            foldl (ema_step prices k) [s] [period..<n] ! i
              = prices ! (period + i - 1) * k
                + foldl (ema_step prices k) [s] [period..<n] ! (i - 1) * (1 - k))"
  using assms
proof (induction n rule: nat_induct_at_least)
  case base
  show ?case by simp
next
  case (Suc n)
  let ?E = "foldl (ema_step prices k) [s] [period..<n]"
  have len: "length ?E = n - period + 1" and hd0: "?E ! 0 = s"
    and rec: "\<And>i. 0 < i \<Longrightarrow> i < n - period + 1 \<Longrightarrow>
                ?E ! i = prices ! (period + i - 1) * k + ?E ! (i - 1) * (1 - k)"
    using Suc.IH by auto
  have ne: "?E \<noteq> []" using len by auto
  have unfold: "foldl (ema_step prices k) [s] [period..<Suc n]
                  = ?E @ [prices ! n * k + last ?E * (1 - k)]"
    using Suc.hyps by (simp add: ema_step_def)
  have lastE: "last ?E = ?E ! (n - period)"
    using ne len by (simp add: last_conv_nth)
  show ?case
  proof (intro conjI allI impI)
    show "length (foldl (ema_step prices k) [s] [period..<Suc n]) = Suc n - period + 1"
      unfolding unfold using Suc.hyps len by simp
    show "foldl (ema_step prices k) [s] [period..<Suc n] ! 0 = s"
      unfolding unfold using hd0 ne by (simp add: nth_append)
  next
    fix i assume i: "0 < i \<and> i < Suc n - period + 1"
    show "foldl (ema_step prices k) [s] [period..<Suc n] ! i
            = prices ! (period + i - 1) * k
              + foldl (ema_step prices k) [s] [period..<Suc n] ! (i - 1) * (1 - k)"
    proof (cases "i < n - period + 1")
      case True
      then have "i - 1 < n - period + 1" by arith
      with True show ?thesis
        unfolding unfold using i rec [of i] len by (simp add: nth_append)
    next
      case False
      with i Suc.hyps have ieq: "i = n - period + 1" by simp
      then have "period + i - 1 = n" using Suc.hyps by simp
      then show ?thesis unfolding unfold using ieq len lastE by (simp add: nth_append)
    qed
  qed
qed

text \<open>
  C4. For a positive period: a price sequence shorter than the period gives the empty
  sequence; otherwise the result has \<open>len(prices) - period + 1\<close> elements, the first is the
  simple moving average of the first \<open>period\<close> prices, and every later element is
  \<open>p*k + ema_{i-1}*(1-k)\<close> with \<open>k = 2/(period+1)\<close> and \<open>p\<close> the price of the same bar,
  \<open>prices[period + i - 1]\<close>.
\<close>

theorem calculateEMA_seed_and_recurrence:
  assumes "0 < period"
  shows "(length prices < period \<longrightarrow> calculateEMA prices period = [])
       \<and> (period \<le> length prices \<longrightarrow>
            length (calculateEMA prices period) = length prices - period + 1
          \<and> calculateEMA prices period ! 0 = sum_list (take period prices) / real period
          \<and> (\<forall>i. 0 < i \<and> i < length prices - period + 1 \<longrightarrow>
               calculateEMA prices period ! i
                 = prices ! (period + i - 1) * (2 / (real period + 1))
                   + calculateEMA prices period ! (i - 1) * (1 - 2 / (real period + 1))))"
proof (intro conjI impI)
  assume "length prices < period"
  then show "calculateEMA prices period = []" by (simp add: calculateEMA_def)
next
  assume le: "period \<le> length prices"
  let ?s = "sum_list (take period prices) / real period"
  let ?k = "2 / (real period + 1)"
  have eq: "calculateEMA prices period
              = foldl (ema_step prices ?k) [?s] [period..<length prices]"
    using le by (simp add: calculateEMA_def Let_def sma_loop_sum)
  note shape = ema_loop_shape [OF le, of prices ?k ?s]
  show "length (calculateEMA prices period) = length prices - period + 1"
    using shape by (simp add: eq)
  show "calculateEMA prices period ! 0 = ?s"
    using shape by (simp add: eq)
  show "\<forall>i. 0 < i \<and> i < length prices - period + 1 \<longrightarrow>
          calculateEMA prices period ! i
            = prices ! (period + i - 1) * ?k + calculateEMA prices period ! (i - 1) * (1 - ?k)"
    using shape unfolding eq by blast
qed

theorem calculateEMA_seed_and_recurrence_witness:
  "calculateEMA [1, 2] 3 = []
   \<and> length (calculateEMA [2, 4, 10, 6] 2) = 3
   \<and> calculateEMA [2, 4, 10, 6] 2 ! 0 = 3
   \<and> calculateEMA [2, 4, 10, 6] 2 ! 1 = 10 * (2 / 3) + 3 * (1 - 2 / 3)
   \<and> calculateEMA [2, 4, 10, 6] 2 = [3, 23 / 3, 59 / 9]"
proof -
  have a: "calculateEMA [1, 2] 3 = []"
    using calculateEMA_seed_and_recurrence [of 3 "[1, 2]"] by simp
  have b: "length (calculateEMA [2, 4, 10, 6] 2) = 3
         \<and> calculateEMA [2, 4, 10, 6] 2 ! 0 = 3
         \<and> calculateEMA [2, 4, 10, 6] 2 ! 1 = 10 * (2 / 3) + 3 * (1 - 2 / 3)"
    using calculateEMA_seed_and_recurrence [of 2 "[2, 4, 10, 6]"] by simp
  have c: "calculateEMA [2, 4, 10, 6] 2 = [3, 23 / 3, 59 / 9]"
    by code_simp
  from a b c show ?thesis by simp
qed

section \<open>The combined signal\<close>

text \<open>
  C2. Whenever \<open>calculateInvestmentSignals\<close> returns a result, its combined signal is
  \<open>STRONG BUY\<close> if the value and the momentum signal are both \<open>BUY\<close>, else \<open>BUY\<close> if exactly
  one of them is \<open>BUY\<close>, else \<open>AVOID\<close> if the momentum signal is \<open>AVOID\<close>, and \<open>WAIT\<close> otherwise;
  so a value \<open>BUY\<close> together with a momentum \<open>AVOID\<close> gives \<open>BUY\<close>.
\<close>

theorem combined_signal_precedence:
  assumes "calculateInvestmentSignals now st = Some r"
  shows "combined_signal r =
           (if value_signal r = BUY \<and> momentum_signal r = BUY then STRONG_BUY
            else if (value_signal r = BUY) \<noteq> (momentum_signal r = BUY) then BUY
            else if momentum_signal r = AVOID then AVOID
            else WAIT)
       \<and> (value_signal r = BUY \<and> momentum_signal r = AVOID \<longrightarrow> combined_signal r = BUY)"
proof -
  from assms obtain q where q: "data st = Some q"
    by (auto simp: calculateInvestmentSignals_def split: option.splits)
  have c: "combined_signal r = combine (value_signal r) (momentum_signal r)"
    using assms q by (auto simp: calculateInvestmentSignals_def Let_def)
  show ?thesis unfolding c by (auto simp: combine_def)
qed

theorem combined_signal_precedence_witness:
  "map_option value_signal
     (calculateInvestmentSignals 0 (sample_tracker (sample_quote 20000 25 20) [1] [2])) = Some BUY
   \<and> map_option momentum_signal
     (calculateInvestmentSignals 0 (sample_tracker (sample_quote 20000 25 20) [1] [2])) = Some AVOID
   \<and> map_option combined_signal
     (calculateInvestmentSignals 0 (sample_tracker (sample_quote 20000 25 20) [1] [2])) = Some BUY"
proof -
  let ?st = "sample_tracker (sample_quote 20000 25 20) [1] [2]"
  obtain r where r: "calculateInvestmentSignals 0 ?st = Some r"
    by (simp add: calculateInvestmentSignals_def sample_tracker_def new_tracker_def Let_def)
  have v: "value_signal r = BUY"
    using r by (auto simp: calculateInvestmentSignals_def sample_tracker_def new_tracker_def
        sample_quote_def FALLBACK_DATA_def valueConditions_def calculateCorrection_def
        CORRECTION_THRESHOLD_def RSI_OVERSOLD_def PE_ATTRACTIVE_def Let_def)
  have m: "momentum_signal r = AVOID"
    using r by (auto simp: calculateInvestmentSignals_def sample_tracker_def new_tracker_def
        momentumConditions_def getCurrentEMATrend_def Let_def)
  have "combined_signal r = BUY"
    using combined_signal_precedence [OF r] v m by simp
  with r v m show ?thesis by simp
qed

section \<open>The value signal\<close>

text \<open>
  C3, as stated, at a price 14 per cent above the all-time high with RSI 25 and PE 20: the
  three conditions of the claim hold (the absolute correction is above the threshold), and
  the enhanced tracker's value signal is \<open>WAIT\<close>.
\<close>

theorem value_signal_abs_counterexample:
  "map_option value_signal
     (calculateInvestmentSignals 0 (sample_tracker (sample_quote 30000 25 20) [] [])) = Some WAIT
   \<and> abs ((current_price (sample_quote 30000 25 20) - all_time_high (sample_quote 30000 25 20))
            / all_time_high (sample_quote 30000 25 20) * 100) \<ge> CORRECTION_THRESHOLD
   \<and> rsi (sample_quote 30000 25 20) < RSI_OVERSOLD
   \<and> pe_ratio (sample_quote 30000 25 20) < PE_ATTRACTIVE"
  by (simp add: calculateInvestmentSignals_def sample_tracker_def new_tracker_def
        sample_quote_def FALLBACK_DATA_def valueConditions_def calculateCorrection_def
        CORRECTION_THRESHOLD_def RSI_OVERSOLD_def PE_ATTRACTIVE_def Let_def)

text \<open>
  C3, amended. For a snapshot with a non-zero all-time high: the basic tracker's badge is \<open>BUY SIGNAL\<close> exactly when the absolute
  correction is at least the threshold, the RSI is below the oversold bound and the PE is
  below the attractive bound, and \<open>WAIT\<close> otherwise. The enhanced tracker's value signal is
  \<open>BUY\<close> exactly when the signed correction is at most minus the threshold and the same RSI
  and PE conditions hold, and \<open>WAIT\<close> otherwise; with a price at or above a positive
  all-time high it is \<open>WAIT\<close>.
\<close>

theorem value_signal_conditions:
  assumes "data st = Some q" and "all_time_high q \<noteq> 0"
  shows "(snd (updateInvestmentSignal q (correctionPercent q)) = ''BUY SIGNAL'' \<longleftrightarrow>
            abs ((current_price q - all_time_high q) / all_time_high q * 100) \<ge> CORRECTION_THRESHOLD
            \<and> rsi q < RSI_OVERSOLD \<and> pe_ratio q < PE_ATTRACTIVE)
       \<and> (snd (updateInvestmentSignal q (correctionPercent q)) \<noteq> ''BUY SIGNAL'' \<longrightarrow>
            snd (updateInvestmentSignal q (correctionPercent q)) = ''WAIT'')
       \<and> (\<exists>r. calculateInvestmentSignals now st = Some r
              \<and> (value_signal r = BUY \<longleftrightarrow>
                    (current_price q - all_time_high q) / all_time_high q * 100
                       \<le> - CORRECTION_THRESHOLD
                    \<and> rsi q < RSI_OVERSOLD \<and> pe_ratio q < PE_ATTRACTIVE)
              \<and> (value_signal r \<noteq> BUY \<longrightarrow> value_signal r = WAIT)
              \<and> (0 < all_time_high q \<and> all_time_high q \<le> current_price q \<longrightarrow>
                    value_signal r = WAIT))"
proof (intro conjI)
  show "snd (updateInvestmentSignal q (correctionPercent q)) = ''BUY SIGNAL'' \<longleftrightarrow>
          abs ((current_price q - all_time_high q) / all_time_high q * 100) \<ge> CORRECTION_THRESHOLD
          \<and> rsi q < RSI_OVERSOLD \<and> pe_ratio q < PE_ATTRACTIVE"
    by (simp add: updateInvestmentSignal_def basic_conditions_def correctionPercent_def Let_def)
  show "snd (updateInvestmentSignal q (correctionPercent q)) \<noteq> ''BUY SIGNAL'' \<longrightarrow>
          snd (updateInvestmentSignal q (correctionPercent q)) = ''WAIT''"
    by (simp add: updateInvestmentSignal_def Let_def)
next
  let ?c = "(current_price q - all_time_high q) / all_time_high q * 100"
  obtain r where r: "calculateInvestmentSignals now st = Some r"
    using assms(1) by (simp add: calculateInvestmentSignals_def Let_def)
  have v: "value_signal r =
             (if ?c \<le> - CORRECTION_THRESHOLD \<and> rsi q < RSI_OVERSOLD \<and> pe_ratio q < PE_ATTRACTIVE
              then BUY else WAIT)"
    using r assms(1)
    by (auto simp: calculateInvestmentSignals_def valueConditions_def calculateCorrection_def
        Let_def)
  have above: "0 < all_time_high q \<and> all_time_high q \<le> current_price q \<longrightarrow>
                 \<not> ?c \<le> - CORRECTION_THRESHOLD"
  proof
    assume h: "0 < all_time_high q \<and> all_time_high q \<le> current_price q"
    then have "0 \<le> ?c"
      by (auto intro!: mult_nonneg_nonneg divide_nonneg_pos)
    then show "\<not> ?c \<le> - CORRECTION_THRESHOLD" by (simp add: CORRECTION_THRESHOLD_def)
  qed
  show "\<exists>r. calculateInvestmentSignals now st = Some r
          \<and> (value_signal r = BUY \<longleftrightarrow>
                ?c \<le> - CORRECTION_THRESHOLD \<and> rsi q < RSI_OVERSOLD \<and> pe_ratio q < PE_ATTRACTIVE)
          \<and> (value_signal r \<noteq> BUY \<longrightarrow> value_signal r = WAIT)
          \<and> (0 < all_time_high q \<and> all_time_high q \<le> current_price q \<longrightarrow>
                value_signal r = WAIT)"
    using r v above by (intro exI [of _ r]) auto
qed

theorem value_signal_conditions_witness:
  "snd (updateInvestmentSignal (sample_quote 30000 25 20)
          (correctionPercent (sample_quote 30000 25 20))) = ''BUY SIGNAL''
   \<and> map_option value_signal
        (calculateInvestmentSignals 0 (sample_tracker (sample_quote 30000 25 20) [] []))
      = Some WAIT
   \<and> map_option value_signal
        (calculateInvestmentSignals 0 (sample_tracker (sample_quote 20000 25 20) [] []))
      = Some BUY"
proof -
  let ?hi = "sample_quote 30000 25 20" and ?lo = "sample_quote 20000 25 20"
  have d1: "data (sample_tracker ?hi [] []) = Some ?hi"
    by (simp add: sample_tracker_def new_tracker_def)
  have d2: "data (sample_tracker ?lo [] []) = Some ?lo"
    by (simp add: sample_tracker_def new_tracker_def)
  have vals: "current_price ?hi = 30000" "current_price ?lo = 20000"
    "all_time_high ?hi = 2627735 / 100" "all_time_high ?lo = 2627735 / 100"
    "rsi ?hi = 25" "rsi ?lo = 25" "pe_ratio ?hi = 20" "pe_ratio ?lo = 20"
    by (simp_all add: sample_quote_def FALLBACK_DATA_def)
  have nz: "all_time_high ?hi \<noteq> 0" "all_time_high ?lo \<noteq> 0"
    by (simp_all add: vals)
  note hi = value_signal_conditions [OF d1 nz(1), of 0]
    and lo = value_signal_conditions [OF d2 nz(2), of 0]
  have a: "snd (updateInvestmentSignal ?hi (correctionPercent ?hi)) = ''BUY SIGNAL''"
    using hi unfolding vals
    by (simp add: CORRECTION_THRESHOLD_def RSI_OVERSOLD_def PE_ATTRACTIVE_def)
  have b: "map_option value_signal (calculateInvestmentSignals 0 (sample_tracker ?hi [] []))
             = Some WAIT"
    using hi unfolding vals by auto
  have c: "map_option value_signal (calculateInvestmentSignals 0 (sample_tracker ?lo [] []))
             = Some BUY"
    using lo unfolding vals
    by (auto simp: CORRECTION_THRESHOLD_def RSI_OVERSOLD_def PE_ATTRACTIVE_def)
  from a b c show ?thesis by simp
qed

section \<open>The relative strength index\<close>

lemma foldl_plus_sum_list:
  "foldl (\<lambda>acc x. acc + x) a xs = a + sum_list (xs :: real list)"
  by (induction xs arbitrary: a) simp_all

lemma recentChanges_window:
  assumes "0 < period" and "period + 1 \<le> length prices"
  shows "recentChanges prices period
           = map (\<lambda>i. prices ! i - prices ! (i - 1)) [length prices - period..<length prices]"
proof -
  have "1 + (length prices - 1 - period) = length prices - period"
    using assms by arith
  then have "drop (length prices - 1 - period) [1..<length prices]
          = [length prices - period..<length prices]"
    by (simp only: drop_upt)
  then show ?thesis
    using assms by (simp add: recentChanges_def slice_last_def price_changes_def drop_map)
qed

lemma recentChanges_nonempty:
  assumes "0 < period" and "period + 1 \<le> length prices"
  shows "recentChanges prices period \<noteq> []"
proof -
  have "length prices - period < length prices" using assms by arith
  then have "[length prices - period..<length prices] \<noteq> []" using assms by auto
  then show ?thesis unfolding recentChanges_window [OF assms] by simp
qed

lemma sum_list_abs_pos:
  "xs \<noteq> [] \<Longrightarrow> \<forall>x \<in> set xs. x < 0 \<Longrightarrow> 0 < sum_list (map abs (xs :: real list))"
proof (induction xs)
  case Nil
  then show ?case by simp
next
  case (Cons x xs)
  have "0 \<le> sum_list (map abs xs)" by (rule sum_list_nonneg) auto
  moreover have "0 < \<bar>x\<bar>" using Cons.prems by auto
  ultimately show ?case by simp
qed

lemma rsi_without_losses:
  assumes "period + 1 \<le> length prices"
    and "\<forall>d \<in> set (recentChanges prices period). \<not> d < 0"
  shows "calculateRSI prices period = 100"
proof -
  have "filter (\<lambda>change. change < 0) (recentChanges prices period) = []"
    using assms(2) by (simp add: filter_empty_conv)
  then show ?thesis using assms(1) by (simp add: calculateRSI_def Let_def)
qed

lemma rsi_formula_bounds:
  assumes "0 \<le> g" and "0 < l"
  shows "0 \<le> 100 - 100 / (1 + g / l)" and "100 - 100 / (1 + g / l) \<le> (100::real)"
proof -
  have "0 \<le> g / l" using assms by simp
  then have one: "1 \<le> 1 + g / l" by simp
  then have "100 / (1 + g / l) \<le> 100 / 1"
    by (intro divide_left_mono) simp_all
  then show "0 \<le> 100 - 100 / (1 + g / l)" by simp
  have "0 \<le> 100 / (1 + g / l)" using one by simp
  then show "100 - 100 / (1 + g / l) \<le> 100" by simp
qed

text \<open>
  C5. With a positive period and at least \<open>period + 1\<close> prices: if none of the last
  \<open>period\<close> consecutive differences is strictly negative, \<open>calculateRSI\<close> returns 100;
  so it does for a constant sequence and for a non-decreasing one.
\<close>

theorem rsi_no_loss_is_100:
  assumes "0 < period" and "period + 1 \<le> length prices"
  shows "((\<forall>i. length prices - period \<le> i \<and> i < length prices
                \<longrightarrow> \<not> prices ! i - prices ! (i - 1) < 0)
            \<longrightarrow> calculateRSI prices period = 100)
       \<and> ((\<exists>c. prices = replicate (length prices) c) \<longrightarrow> calculateRSI prices period = 100)
       \<and> (sorted prices \<longrightarrow> calculateRSI prices period = 100)"
proof -
  have main: "calculateRSI prices period = 100"
    if h: "\<forall>i. length prices - period \<le> i \<and> i < length prices
                \<longrightarrow> \<not> prices ! i - prices ! (i - 1) < 0"
  proof (rule rsi_without_losses [OF assms(2)])
    show "\<forall>d \<in> set (recentChanges prices period). \<not> d < 0"
      using h by (auto simp: recentChanges_window [OF assms])
  qed
  have const: "calculateRSI prices period = 100" if "\<exists>c. prices = replicate (length prices) c"
  proof (rule main, intro allI impI)
    fix i assume i: "length prices - period \<le> i \<and> i < length prices"
    from that obtain c n where c: "prices = replicate n c" by blast
    then have "n = length prices" by simp
    with i have "i < n" "i - 1 < n" by auto
    then have "prices ! i = c" "prices ! (i - 1) = c"
      by (simp_all add: c)
    then show "\<not> prices ! i - prices ! (i - 1) < 0" by simp
  qed
  have mono: "calculateRSI prices period = 100" if s: "sorted prices"
  proof (rule main, intro allI impI)
    fix i assume i: "length prices - period \<le> i \<and> i < length prices"
    have "prices ! (i - 1) \<le> prices ! i"
      using s i by (intro sorted_nth_mono) simp_all
    then show "\<not> prices ! i - prices ! (i - 1) < 0" by simp
  qed
  from main const mono show ?thesis by simp
qed

theorem rsi_no_loss_is_100_witness:
  "calculateRSI [5, 5, 5] 2 = 100 \<and> calculateRSI [9, 1, 2, 2] 2 = 100
   \<and> calculateRSI [1, 2, 3] 2 = 100"
proof -
  have a: "calculateRSI [5, 5, 5] 2 = 100"
    using rsi_no_loss_is_100 [of 2 "[5, 5, 5]"] by (simp add: numeral_3_eq_3)
  have b: "calculateRSI [9, 1, 2, 2] 2 = 100"
  proof -
    have "\<forall>i. length [9, 1, 2, 2::real] - 2 \<le> i \<and> i < length [9, 1, 2, 2::real]
            \<longrightarrow> \<not> [9, 1, 2, 2::real] ! i - [9, 1, 2, 2] ! (i - 1) < 0"
    proof (intro allI impI)
      fix i :: nat assume "length [9, 1, 2, 2::real] - 2 \<le> i \<and> i < length [9, 1, 2, 2::real]"
      then have "i = 2 \<or> i = 3" by auto
      then show "\<not> [9, 1, 2, 2::real] ! i - [9, 1, 2, 2] ! (i - 1) < 0" by auto
    qed
    then show ?thesis using rsi_no_loss_is_100 [of 2 "[9, 1, 2, 2]"] by simp
  qed
  have c: "calculateRSI [1, 2, 3] 2 = 100"
    using rsi_no_loss_is_100 [of 2 "[1, 2, 3]"] by simp
  from a b c show ?thesis by simp
qed

text \<open>
  C6. With a positive period and at least \<open>period + 1\<close> prices the value of \<open>calculateRSI\<close>
  lies in \<open>[0, 100]\<close>, and for a strictly decreasing sequence it is 0.
\<close>

theorem rsi_range_and_decreasing:
  assumes "0 < period" and "period + 1 \<le> length prices"
  shows "0 \<le> calculateRSI prices period \<and> calculateRSI prices period \<le> 100
       \<and> (sorted_wrt (\<lambda>a b. a > b) prices \<longrightarrow> calculateRSI prices period = 0)"
proof -
  let ?rc = "recentChanges prices period"
  let ?gains = "filter (\<lambda>change. change > 0) ?rc"
  let ?neg = "filter (\<lambda>change. change < 0) ?rc"
  let ?avgGain = "if ?gains \<noteq> [] then foldl (\<lambda>acc gain. acc + gain) 0 ?gains / real period else 0"
  let ?avgLoss = "if map abs ?neg \<noteq> []
                  then foldl (\<lambda>acc loss. acc + loss) 0 (map abs ?neg) / real period else 0"
  have eq: "calculateRSI prices period
              = (if ?avgLoss = 0 then 100 else 100 - 100 / (1 + ?avgGain / ?avgLoss))"
    using assms(2) by (simp add: calculateRSI_def Let_def)
  have g0: "0 \<le> ?avgGain"
  proof -
    have "0 \<le> sum_list ?gains" by (rule sum_list_nonneg) auto
    then show ?thesis using assms(1) by (simp add: foldl_plus_sum_list)
  qed
  have l0: "0 \<le> ?avgLoss"
  proof -
    have "0 \<le> sum_list (map abs ?neg)" by (rule sum_list_nonneg) auto
    then show ?thesis using assms(1) by (simp add: foldl_plus_sum_list)
  qed
  have range: "0 \<le> calculateRSI prices period \<and> calculateRSI prices period \<le> 100"
  proof (cases "?avgLoss = 0")
    case True
    then show ?thesis unfolding eq by simp
  next
    case False
    with l0 have "0 < ?avgLoss" by linarith
    from rsi_formula_bounds [OF g0 this] False show ?thesis unfolding eq by simp
  qed
  have dec: "calculateRSI prices period = 0" if s: "sorted_wrt (\<lambda>a b. a > b) prices"
  proof -
    have neg: "\<forall>d \<in> set ?rc. d < 0"
    proof
      fix d assume "d \<in> set ?rc"
      then obtain i where i: "length prices - period \<le> i" "i < length prices"
        and d: "d = prices ! i - prices ! (i - 1)"
        by (auto simp: recentChanges_window [OF assms])
      have "i - 1 < i" using i assms by simp
      from sorted_wrt_nth_less [OF s this i(2)] have "prices ! (i - 1) > prices ! i" .
      then show "d < 0" by (simp add: d)
    qed
    then have gains: "?gains = []" by (auto simp: filter_empty_conv)
    from neg have negs: "?neg = ?rc" by (simp add: filter_id_conv)
    have ne: "?rc \<noteq> []" by (rule recentChanges_nonempty [OF assms])
    have "0 < sum_list (map abs ?rc)" by (rule sum_list_abs_pos [OF ne neg])
    then have "0 < ?avgLoss" using assms(1) ne by (simp add: negs foldl_plus_sum_list)
    then have "?avgLoss \<noteq> 0" by linarith
    then show ?thesis unfolding eq by (simp add: gains)
  qed
  from range dec show ?thesis by simp
qed

theorem rsi_range_and_decreasing_witness:
  "0 \<le> calculateRSI [1, 3, 2] 2 \<and> calculateRSI [1, 3, 2] 2 \<le> 100
   \<and> calculateRSI [1, 3, 2] 2 = 200 / 3 \<and> calculateRSI [3, 2, 1] 2 = 0"
proof -
  have a: "0 \<le> calculateRSI [1, 3, 2] 2 \<and> calculateRSI [1, 3, 2] 2 \<le> 100"
    using rsi_range_and_decreasing [of 2 "[1, 3, 2]"] by simp
  have b: "calculateRSI [3, 2, 1] 2 = 0"
    using rsi_range_and_decreasing [of 2 "[3, 2, 1]"] by simp
  have c: "calculateRSI [1, 3, 2] 2 = 200 / 3" by code_simp
  from a b c show ?thesis by simp
qed

section \<open>Helper facts on sample bars, constant prices and skipped steps\<close>

lemma closes_bars_from: "map (\<lambda>item. to_number (close item)) (bars_from d cs) = cs"
  by (induction d cs rule: bars_from.induct) (simp_all add: to_number_def)

lemma length_bars_from: "length (bars_from d cs) = length cs"
  by (induction d cs rule: bars_from.induct) simp_all

lemma closePrices_with_bars: "closePrices (tracker_with_bars (bars_from d cs)) = cs"
  by (simp add: closePrices_def tracker_with_bars_def closes_bars_from)

lemma ema_loop_constant:
  assumes "period \<le> n" and "n \<le> N"
  shows "foldl (ema_step (replicate N c) k) [c] [period..<n] = replicate (n - period + 1) c"
  using assms
proof (induction n rule: nat_induct_at_least)
  case base
  show ?case by simp
next
  case (Suc n)
  then have IH: "foldl (ema_step (replicate N c) k) [c] [period..<n]
                   = replicate (n - period + 1) c" by simp
  have alg: "c * k + c * (1 - k) = c" by (simp add: algebra_simps)
  have "foldl (ema_step (replicate N c) k) [c] [period..<Suc n]
          = ema_step (replicate N c) k (replicate (n - period + 1) c) n"
    using Suc.hyps by (simp add: IH)
  also have "\<dots> = replicate (n - period + 1) c @ [c]"
    using Suc.prems by (simp add: ema_step_def alg)
  also have "\<dots> = replicate (Suc n - period + 1) c"
    using Suc.hyps by (simp add: Suc_diff_le replicate_append_same)
  finally show ?case .
qed

lemma calculateEMA_constant:
  assumes "0 < period" and "period \<le> n"
  shows "calculateEMA (replicate n c) period = replicate (n - period + 1) c"
proof -
  have "foldl (\<lambda>sma i. sma + replicate n c ! i) 0 [0..<period]
          = sum_list (take period (replicate n c))"
    using assms by (simp add: sma_loop_sum)
  also have "\<dots> = real period * c"
    using assms by (simp add: min_def sum_list_replicate)
  finally have sma: "foldl (\<lambda>sma i. sma + replicate n c ! i) 0 [0..<period] / real period = c"
    using assms by simp
  show ?thesis
    using assms by (simp add: calculateEMA_def Let_def sma ema_loop_constant)
qed

lemma detect_loop_all_skipped:
  "\<forall>i \<in> set idxs. detect_step st start i = Inr [] \<Longrightarrow>
     detect_loop st start idxs found = Inr found"
  by (induction idxs arbitrary: found) simp_all

lemma detect_step_falsy:
  "falsy (current20_at st i) \<or> falsy (current50_at st start i)
     \<or> falsy (prev20_at st i) \<or> falsy (prev50_at st start i)
   \<Longrightarrow> detect_step st start i = Inr []"
  by (simp add: detect_step_def Let_def)

lemma detect_short_slow:
  assumes "2 \<le> length (ema20 (emaData st))" and "2 \<le> length (ema50 (emaData st))"
    and "length (ema50 (emaData st)) \<le> 19"
  shows "detectCrossovers st = Inr (st\<lparr>emaData := (emaData st)\<lparr>crossovers := []\<rparr>\<rparr>)"
proof -
  have "detect_step st startIndex i = Inr []" for i
  proof (rule detect_step_falsy)
    have "current50_at st startIndex i = None"
      using assms(3) by (simp add: current50_at_def js_nth_def EMA_PERIOD_20_def)
    then show "falsy (current20_at st i) \<or> falsy (current50_at st startIndex i)
                 \<or> falsy (prev20_at st i) \<or> falsy (prev50_at st startIndex i)"
      by (simp add: falsy_def)
  qed
  then have "detect_loop st startIndex [startIndex..<length (ema20 (emaData st))] [] = Inr []"
    by (intro detect_loop_all_skipped) simp
  then show ?thesis using assms(1,2) by (simp add: detectCrossovers_def)
qed

section \<open>The trend\<close>

text \<open>
  C7. \<open>getCurrentEMATrend\<close> answers \<open>UNKNOWN\<close> exactly when one of the EMA sequences is
  empty, and otherwise \<open>BULLISH\<close> when the last fast value is strictly greater than the last
  slow value and \<open>BEARISH\<close> if not, so \<open>BEARISH\<close> when the two are equal; a step whose current
  fast and slow values are equal is no crossover. For 60 bars of constant close 100 both
  EMA sequences are constantly 100, \<open>detectCrossovers\<close> records no crossover and the trend
  is \<open>BEARISH\<close>.
\<close>

theorem trend_strict_comparison:
  "(trend (getCurrentEMATrend now st) = UNKNOWN
      \<longleftrightarrow> ema20 (emaData st) = [] \<or> ema50 (emaData st) = [])
   \<and> (ema20 (emaData st) \<noteq> [] \<and> ema50 (emaData st) \<noteq> [] \<longrightarrow>
        trend (getCurrentEMATrend now st)
          = (if last (ema20 (emaData st)) > last (ema50 (emaData st)) then BULLISH else BEARISH))
   \<and> (ema20 (emaData st) \<noteq> [] \<and> ema50 (emaData st) \<noteq> []
        \<and> last (ema20 (emaData st)) = last (ema50 (emaData st)) \<longrightarrow>
        trend (getCurrentEMATrend now st) = BEARISH)
   \<and> crossoverType prev20 prev50 current current = None
   \<and> ema20 (emaData (calculateEMAs t (tracker_with_bars (bars_from 0 (replicate 60 100)))))
        = replicate 41 100
   \<and> ema50 (emaData (calculateEMAs t (tracker_with_bars (bars_from 0 (replicate 60 100)))))
        = replicate 11 100
   \<and> detected (detectCrossovers
        (calculateEMAs t (tracker_with_bars (bars_from 0 (replicate 60 100))))) = Inr []
   \<and> (\<forall>st'. detectCrossovers
              (calculateEMAs t (tracker_with_bars (bars_from 0 (replicate 60 100)))) = Inr st'
          \<longrightarrow> trend (getCurrentEMATrend now st') = BEARISH)"
proof -
  let ?st = "tracker_with_bars (bars_from 0 (replicate 60 100))"
  let ?st1 = "calculateEMAs t ?st"
  have len: "length (historicalData ?st) = 60"
    by (simp add: tracker_with_bars_def length_bars_from)
  have cp: "closePrices ?st = replicate 60 100" by (rule closePrices_with_bars)
  have e20: "ema20 (emaData ?st1) = replicate 41 100"
    using len by (simp add: calculateEMAs_def cacheData_def Let_def cp EMA_PERIOD_20_def
        calculateEMA_constant)
  have e50: "ema50 (emaData ?st1) = replicate 11 100"
    using len by (simp add: calculateEMAs_def cacheData_def Let_def cp EMA_PERIOD_50_def
        calculateEMA_constant)
  have det: "detectCrossovers ?st1 = Inr (?st1\<lparr>emaData := (emaData ?st1)\<lparr>crossovers := []\<rparr>\<rparr>)"
    by (rule detect_short_slow) (simp_all add: e20 e50)
  have unknown: "trend (getCurrentEMATrend now st) = UNKNOWN
                   \<longleftrightarrow> ema20 (emaData st) = [] \<or> ema50 (emaData st) = []"
    by (simp add: getCurrentEMATrend_def Let_def)
  have strict: "ema20 (emaData st) \<noteq> [] \<and> ema50 (emaData st) \<noteq> [] \<longrightarrow>
        trend (getCurrentEMATrend now st)
          = (if last (ema20 (emaData st)) > last (ema50 (emaData st)) then BULLISH else BEARISH)"
    by (simp add: getCurrentEMATrend_def Let_def)
  have tie: "ema20 (emaData st) \<noteq> [] \<and> ema50 (emaData st) \<noteq> []
        \<and> last (ema20 (emaData st)) = last (ema50 (emaData st)) \<longrightarrow>
        trend (getCurrentEMATrend now st) = BEARISH"
    by (simp add: getCurrentEMATrend_def Let_def)
  have step: "crossoverType prev20 prev50 current current = None"
    by (simp add: crossoverType_def)
  have none: "detected (detectCrossovers ?st1) = Inr []"
    by (simp add: det detected_def)
  have bear: "\<forall>st'. detectCrossovers ?st1 = Inr st'
                \<longrightarrow> trend (getCurrentEMATrend now st') = BEARISH"
    by (simp add: det getCurrentEMATrend_def Let_def e20 e50)
  from unknown strict tie step e20 e50 none bear show ?thesis by blast
qed

theorem trend_strict_comparison_witness:
  "trend (getCurrentEMATrend 0 (sample_tracker FALLBACK_DATA [] [5])) = UNKNOWN
   \<and> trend (getCurrentEMATrend 0 (sample_tracker FALLBACK_DATA [1, 7] [5])) = BULLISH
   \<and> trend (getCurrentEMATrend 0 (sample_tracker FALLBACK_DATA [1, 5] [5])) = BEARISH
   \<and> trend (getCurrentEMATrend 0 (sample_tracker FALLBACK_DATA [1, 4] [5])) = BEARISH"
proof -
  have e: "\<And>q f s. ema20 (emaData (sample_tracker q f s)) = f"
    "\<And>q f s. ema50 (emaData (sample_tracker q f s)) = s"
    by (simp_all add: sample_tracker_def new_tracker_def)
  have a: "trend (getCurrentEMATrend 0 (sample_tracker FALLBACK_DATA [] [5])) = UNKNOWN"
    using trend_strict_comparison [of 0 "sample_tracker FALLBACK_DATA [] [5]"] by (simp add: e)
  have b: "trend (getCurrentEMATrend 0 (sample_tracker FALLBACK_DATA [1, 7] [5])) = BULLISH"
    using trend_strict_comparison [of 0 "sample_tracker FALLBACK_DATA [1, 7] [5]"]
    by (simp add: e)
  have c: "trend (getCurrentEMATrend 0 (sample_tracker FALLBACK_DATA [1, 5] [5])) = BEARISH"
    using trend_strict_comparison [of 0 "sample_tracker FALLBACK_DATA [1, 5] [5]"]
    by (simp add: e)
  have d: "trend (getCurrentEMATrend 0 (sample_tracker FALLBACK_DATA [1, 4] [5])) = BEARISH"
    using trend_strict_comparison [of 0 "sample_tracker FALLBACK_DATA [1, 4] [5]"]
    by (simp add: e)
  from a b c d show ?thesis by simp
qed

section \<open>The cache\<close>

lemma load_current_frame:
  "localStorage (load_current now st) = localStorage st"
  "historicalData (load_current now st) = historicalData st"
  "emaData (load_current now st) = emaData st"
  by (simp_all add: load_current_def split: option.splits cache_payload.splits)

lemma load_historical_frame:
  "localStorage (load_historical now st) = localStorage st"
  "data (load_historical now st) = data st"
  "emaData (load_historical now st) = emaData st"
  by (simp_all add: load_historical_def split: option.splits cache_payload.splits)

lemma load_ema_frame:
  "localStorage (load_ema now st) = localStorage st"
  "data (load_ema now st) = data st"
  "historicalData (load_ema now st) = historicalData st"
  by (simp_all add: load_ema_def split: option.splits cache_payload.splits)

lemma loaded_fields:
  "data (loadCachedData now st) = data (load_current now st)"
  "historicalData (loadCachedData now st) = historicalData (load_historical now st)"
  "emaData (loadCachedData now st) = emaData (load_ema now st)"
proof -
  show "data (loadCachedData now st) = data (load_current now st)"
    by (simp add: loadCachedData_def load_ema_frame load_historical_frame)
  have "historicalData (load_historical now (load_current now st))
          = historicalData (load_historical now st)"
    by (simp add: load_historical_def load_current_frame
        split: option.splits cache_payload.splits)
  then show "historicalData (loadCachedData now st) = historicalData (load_historical now st)"
    by (simp add: loadCachedData_def load_ema_frame)
  show "emaData (loadCachedData now st) = emaData (load_ema now st)"
    by (simp add: loadCachedData_def load_ema_def load_historical_frame load_current_frame
        split: option.splits cache_payload.splits)
qed

text \<open>
  C8. A value stored by \<open>cacheData\<close> under one of the three keys is what \<open>loadCachedData\<close>
  installs when it runs less than the key's window later (10 minutes for the quote, 1 hour
  for the bars and for the EMA bundle). An entry whose version is not \<open>2.0\<close>, or whose age
  has reached the window, leaves the tracker's field as it was.
\<close>

theorem cache_round_trip:
  "(later - now < 600000 \<longrightarrow>
      data (loadCachedData later (cacheData now ''nifty_current'' (CachedQuote q) st)) = Some q)
   \<and> (later - now < 3600000 \<longrightarrow>
      historicalData (loadCachedData later (cacheData now ''nifty_historical'' (CachedBars bs) st))
        = bs)
   \<and> (later - now < 3600000 \<longrightarrow>
      emaData (loadCachedData later (cacheData now ''nifty_ema'' (CachedEma e) st)) = e)
   \<and> (localStorage st ''nifty_current'' = Some cached
        \<and> (c_version cached \<noteq> ''2.0'' \<or> later - c_timestamp cached \<ge> 600000) \<longrightarrow>
      data (loadCachedData later st) = data st)
   \<and> (localStorage st ''nifty_historical'' = Some cached
        \<and> (c_version cached \<noteq> ''2.0'' \<or> later - c_timestamp cached \<ge> 3600000) \<longrightarrow>
      historicalData (loadCachedData later st) = historicalData st)
   \<and> (localStorage st ''nifty_ema'' = Some cached
        \<and> (c_version cached \<noteq> ''2.0'' \<or> later - c_timestamp cached \<ge> 3600000) \<longrightarrow>
      emaData (loadCachedData later st) = emaData st)"
proof (intro conjI impI)
  assume "later - now < 600000"
  then show "data (loadCachedData later (cacheData now ''nifty_current'' (CachedQuote q) st))
               = Some q"
    by (simp add: loaded_fields load_current_def cacheData_def entry_fresh_def)
next
  assume "later - now < 3600000"
  then show "historicalData
               (loadCachedData later (cacheData now ''nifty_historical'' (CachedBars bs) st)) = bs"
    by (simp add: loaded_fields load_historical_def cacheData_def entry_fresh_def)
next
  assume "later - now < 3600000"
  then show "emaData (loadCachedData later (cacheData now ''nifty_ema'' (CachedEma e) st)) = e"
    by (simp add: loaded_fields load_ema_def cacheData_def entry_fresh_def)
next
  assume "localStorage st ''nifty_current'' = Some cached
            \<and> (c_version cached \<noteq> ''2.0'' \<or> later - c_timestamp cached \<ge> 600000)"
  then show "data (loadCachedData later st) = data st"
    by (auto simp: loaded_fields load_current_def entry_fresh_def)
next
  assume "localStorage st ''nifty_historical'' = Some cached
            \<and> (c_version cached \<noteq> ''2.0'' \<or> later - c_timestamp cached \<ge> 3600000)"
  then show "historicalData (loadCachedData later st) = historicalData st"
    by (auto simp: loaded_fields load_historical_def entry_fresh_def)
next
  assume "localStorage st ''nifty_ema'' = Some cached
            \<and> (c_version cached \<noteq> ''2.0'' \<or> later - c_timestamp cached \<ge> 3600000)"
  then show "emaData (loadCachedData later st) = emaData st"
    by (auto simp: loaded_fields load_ema_def entry_fresh_def)
qed

theorem cache_round_trip_witness:
  "data (loadCachedData 599999 (cacheData 0 ''nifty_current'' (CachedQuote FALLBACK_DATA)
           (new_tracker [] Map.empty))) = Some FALLBACK_DATA
   \<and> data (loadCachedData 600000 (cacheData 0 ''nifty_current'' (CachedQuote FALLBACK_DATA)
           (new_tracker [] Map.empty))) = None
   \<and> data (loadCachedData 5
           (new_tracker []
              [''nifty_current'' \<mapsto>
                 \<lparr> c_data = CachedQuote FALLBACK_DATA, c_timestamp = 0, c_version = ''1.0'' \<rparr>]))
       = None"
proof -
  let ?st = "new_tracker [] Map.empty"
  let ?old = "\<lparr> c_data = CachedQuote FALLBACK_DATA, c_timestamp = 0, c_version = ''1.0'' \<rparr>"
  have a: "data (loadCachedData 599999 (cacheData 0 ''nifty_current'' (CachedQuote FALLBACK_DATA)
             ?st)) = Some FALLBACK_DATA"
    using cache_round_trip [where later = 599999 and now = 0 and q = FALLBACK_DATA and st = ?st]
    by simp
  have b: "data (loadCachedData 600000 (cacheData 0 ''nifty_current'' (CachedQuote FALLBACK_DATA)
             ?st)) = None"
    using cache_round_trip [where later = 600000
        and st = "cacheData 0 ''nifty_current'' (CachedQuote FALLBACK_DATA) ?st"
        and cached = "\<lparr> c_data = CachedQuote FALLBACK_DATA, c_timestamp = 0,
                        c_version = ''2.0'' \<rparr>"]
    by (simp add: cacheData_def new_tracker_def)
  have c: "data (loadCachedData 5 (new_tracker [] [''nifty_current'' \<mapsto> ?old])) = None"
    using cache_round_trip [where later = 5
        and st = "new_tracker [] [''nifty_current'' \<mapsto> ?old]" and cached = ?old]
    by (simp add: new_tracker_def)
  from a b c show ?thesis by simp
qed

section \<open>Bars without a closing price\<close>

lemma zip_with_index: "zip xs [0..<length xs] = map (\<lambda>i. (xs ! i, i)) [0..<length xs]"
  by (rule nth_equalityI) simp_all

lemma processed_bars:
  "list_all valid_time (r_timestamp result) \<Longrightarrow>
   historicalData (processHistoricalData (Some result) st)
     = map (\<lambda>i. historical_item result (r_timestamp result ! i) i)
         (filter (\<lambda>i. r_close result ! i \<noteq> None) [0..<length (r_timestamp result)])"
  by (simp add: processHistoricalData_def zip_with_index filter_map comp_def
      historical_item_def)

lemma invalid_timestamp_falls_back:
  "\<not> list_all valid_time (r_timestamp result) \<Longrightarrow>
   historicalData (processHistoricalData (Some result) st) = FALLBACK_HISTORICAL st"
  by (simp add: processHistoricalData_def)

lemma processed_frame:
  "emaData (processHistoricalData response st) = emaData st"
  by (simp add: processHistoricalData_def split: option.splits)

lemma filter_by_index:
  "map (\<lambda>i. xs ! i) (filter (\<lambda>i. P (xs ! i)) [0..<length xs]) = filter P xs"
proof -
  have "map (\<lambda>i. xs ! i) (filter (\<lambda>i. P (xs ! i)) [0..<length xs])
          = filter P (map (\<lambda>i. xs ! i) [0..<length xs])"
    by (simp add: filter_map comp_def)
  then show ?thesis by (simp add: map_nth)
qed

text \<open>
  What the filter keeps. For a well-formed response whose \<open>close\<close> array is as long as its
  timestamps and whose timestamps are valid dates, \<open>processHistoricalData\<close> keeps exactly
  the bars whose close is not \<open>null\<close>, in order, and does not fall back: the closes of the
  bar list are the non-null closes of the response, the price series handed to
  \<open>calculateEMA\<close> is the series of their values, and with at least 50 such bars the fast
  EMA is computed from it. The basic tracker's \<open>prices\<close> are the non-null closes too, and
  its RSI is computed from them.
\<close>

theorem null_closes_filtered:
  assumes "length (r_close result) = length (r_timestamp result)"
    and "list_all valid_time (r_timestamp result)"
  shows "historicalData (processHistoricalData (Some result) st)
           = map (\<lambda>i. historical_item result (r_timestamp result ! i) i)
               (filter (\<lambda>i. r_close result ! i \<noteq> None) [0..<length (r_timestamp result)])
       \<and> (\<forall>item \<in> set (historicalData (processHistoricalData (Some result) st)).
             close item \<noteq> None)
       \<and> map close (historicalData (processHistoricalData (Some result) st))
           = filter (\<lambda>c. c \<noteq> None) (r_close result)
       \<and> closePrices (processHistoricalData (Some result) st)
           = map the (filter (\<lambda>c. c \<noteq> None) (r_close result))
       \<and> (50 \<le> length (filter (\<lambda>c. c \<noteq> None) (r_close result)) \<longrightarrow>
            ema20 (emaData (calculateEMAs now (processHistoricalData (Some result) st)))
              = calculateEMA (map the (filter (\<lambda>c. c \<noteq> None) (r_close result))) 20)
       \<and> y_prices (processYahooData_series (r_close result) hs ls)
           = map the (filter (\<lambda>c. c \<noteq> None) (r_close result))
       \<and> y_rsi (processYahooData_series (r_close result) hs ls)
           = calculateRSI (map the (filter (\<lambda>c. c \<noteq> None) (r_close result))) 14"
proof -
  let ?st = "processHistoricalData (Some result) st"
  let ?kept = "filter (\<lambda>c. c \<noteq> None) (r_close result)"
  have nn: "map to_number ?kept = map the ?kept"
    by (rule map_cong) (auto simp: to_number_def)
  have closes: "map close (historicalData ?st) = ?kept"
  proof -
    have "map close (historicalData ?st)
            = map (\<lambda>i. r_close result ! i)
                (filter (\<lambda>i. r_close result ! i \<noteq> None) [0..<length (r_close result)])"
      by (simp add: processed_bars [OF assms(2)] comp_def historical_item_def assms(1))
    also have "\<dots> = ?kept"
      by (rule filter_by_index [where P = "\<lambda>c. c \<noteq> None" and xs = "r_close result"])
    finally show ?thesis .
  qed
  have all: "\<forall>item \<in> set (historicalData ?st). close item \<noteq> None"
    by (simp add: processHistoricalData_def assms(2))
  have cp: "closePrices ?st = map the ?kept"
  proof -
    have "closePrices ?st = map to_number (map close (historicalData ?st))"
      by (simp add: closePrices_def comp_def)
    then show ?thesis by (simp only: closes nn)
  qed
  have len: "length (historicalData ?st) = length ?kept"
    using closes by (metis length_map)
  have ema: "50 \<le> length ?kept \<longrightarrow>
               ema20 (emaData (calculateEMAs now ?st)) = calculateEMA (map the ?kept) 20"
    by (simp add: calculateEMAs_def cacheData_def Let_def len cp EMA_PERIOD_20_def)
  have fnn: "filter_non_null (r_close result) = map the ?kept"
    unfolding filter_non_null_def by (rule nn)
  have yp: "y_prices (processYahooData_series (r_close result) hs ls) = map the ?kept"
    by (simp add: processYahooData_series_def Let_def fnn)
  have yr: "y_rsi (processYahooData_series (r_close result) hs ls)
              = calculateRSI (map the ?kept) 14"
    by (simp add: processYahooData_series_def Let_def fnn)
  from processed_bars [OF assms(2), of st] all closes cp ema yp yr show ?thesis by blast
qed

theorem null_closes_filtered_witness:
  "map close (historicalData (processHistoricalData (Some sample_chart) (new_tracker [] Map.empty)))
     = [Some 1, Some 3]
   \<and> map date (historicalData (processHistoricalData (Some sample_chart) (new_tracker [] Map.empty)))
     = [0, 2]
   \<and> closePrices (processHistoricalData (Some sample_chart) (new_tracker [] Map.empty)) = [1, 3]"
proof -
  have l: "length (r_close sample_chart) = length (r_timestamp sample_chart)"
    by (simp add: sample_chart_def)
  have v: "list_all valid_time (r_timestamp sample_chart)"
    by (simp add: sample_chart_def valid_time_def)
  note t = null_closes_filtered [OF l v, of "new_tracker [] Map.empty"]
  have c: "r_close sample_chart = [Some 1, None, Some 3]"
    "r_timestamp sample_chart = [0, 86400, 172800]"
    by (simp_all add: sample_chart_def)
  have "map close (historicalData
          (processHistoricalData (Some sample_chart) (new_tracker [] Map.empty)))
          = filter (\<lambda>c. c \<noteq> None) (r_close sample_chart)"
    using t by blast
  then have a: "map close (historicalData
             (processHistoricalData (Some sample_chart) (new_tracker [] Map.empty)))
             = [Some 1, Some 3]"
    by (simp add: c)
  have "closePrices (processHistoricalData (Some sample_chart) (new_tracker [] Map.empty))
          = map the (filter (\<lambda>c. c \<noteq> None) (r_close sample_chart))"
    using t by blast
  then have b: "closePrices (processHistoricalData (Some sample_chart) (new_tracker [] Map.empty))
             = [1, 3]"
    by (simp add: c)
  have "historicalData (processHistoricalData (Some sample_chart) (new_tracker [] Map.empty))
          = map (\<lambda>i. historical_item sample_chart (r_timestamp sample_chart ! i) i)
              (filter (\<lambda>i. r_close sample_chart ! i \<noteq> None)
                 [0..<length (r_timestamp sample_chart)])"
    using t by blast
  also have "filter (\<lambda>i. r_close sample_chart ! i \<noteq> None)
               [0..<length (r_timestamp sample_chart)] = [0, 2]"
    by (simp add: c upt_rec)
  finally have d: "map date (historicalData
                     (processHistoricalData (Some sample_chart) (new_tracker [] Map.empty)))
                     = [0, 2]"
    by (simp add: historical_item_def c)
  from a d b show ?thesis by simp
qed

section \<open>The moving average by recursion\<close>

lemma ema_from_snoc:
  "ema_from k e (ps @ [p]) = ema_from k e ps @ [p * k + last (e # ema_from k e ps) * (1 - k)]"
  by (induction ps arbitrary: e) simp_all

lemma ema_loop_by_recursion:
  assumes "period \<le> n" and "n \<le> length prices"
  shows "foldl (ema_step prices k) [s] [period..<n]
           = s # ema_from k s (take (n - period) (drop period prices))"
  using assms
proof (induction n rule: nat_induct_at_least)
  case base
  show ?case by simp
next
  case (Suc n)
  let ?zs = "drop period prices"
  have IH: "foldl (ema_step prices k) [s] [period..<n] = s # ema_from k s (take (n - period) ?zs)"
    using Suc by simp
  have idx: "n - period < length ?zs" using Suc.hyps Suc.prems by simp
  have nth: "?zs ! (n - period) = prices ! n" using Suc.hyps Suc.prems by simp
  have "take (Suc n - period) ?zs = take (n - period) ?zs @ [prices ! n]"
    using take_Suc_conv_app_nth [OF idx] Suc.hyps by (simp add: Suc_diff_le nth)
  then have B: "s # ema_from k s (take (Suc n - period) ?zs)
               = (s # ema_from k s (take (n - period) ?zs))
                 @ [prices ! n * k + last (s # ema_from k s (take (n - period) ?zs)) * (1 - k)]"
    by (simp only: ema_from_snoc append_Cons)
  have "foldl (ema_step prices k) [s] [period..<Suc n]
          = ema_step prices k (s # ema_from k s (take (n - period) ?zs)) n"
    using Suc.hyps by (simp add: IH)
  also have "\<dots> = (s # ema_from k s (take (n - period) ?zs))
                 @ [prices ! n * k + last (s # ema_from k s (take (n - period) ?zs)) * (1 - k)]"
    by (simp only: ema_step_def)
  also have "\<dots> = s # ema_from k s (take (Suc n - period) ?zs)"
    by (simp only: B)
  finally show ?case .
qed

lemma calculateEMA_by_recursion:
  assumes "period \<le> length prices"
  shows "calculateEMA prices period
           = sum_list (take period prices) / real period
             # ema_from (2 / (real period + 1)) (sum_list (take period prices) / real period)
                 (drop period prices)"
  using assms
  by (simp add: calculateEMA_def Let_def sma_loop_sum ema_loop_by_recursion)

lemma ema_from_constant: "c * k + c * (1 - k) = c \<Longrightarrow> ema_from k c (replicate n c) = replicate n c"
  by (induction n) simp_all

lemma ema_from_append:
  "ema_from k e (ps @ qs) = ema_from k e ps @ ema_from k (last (e # ema_from k e ps)) qs"
  by (induction ps arbitrary: e) simp_all

lemma length_ema_from: "length (ema_from k e ps) = length ps"
  by (induction ps arbitrary: e) simp_all

lemma ema_from_above:
  assumes "0 < k" and "k < 1"
  shows "c < e \<Longrightarrow> \<forall>p \<in> set ps. c \<le> p \<Longrightarrow> \<forall>x \<in> set (ema_from k e ps). c < x"
proof (induction ps arbitrary: e)
  case Nil
  show ?case by simp
next
  case (Cons p ps)
  have "c * k \<le> p * k" using Cons.prems assms by simp
  moreover have "c * (1 - k) < e * (1 - k)" using Cons.prems assms by simp
  ultimately have "c * k + c * (1 - k) < p * k + e * (1 - k)" by linarith
  then have "c < p * k + e * (1 - k)" by (simp add: algebra_simps)
  with Cons show ?case by simp
qed

section \<open>The loop of \<open>detectCrossovers\<close>\<close>

lemma detect_loop_pushed:
  "\<forall>i \<in> set idxs. \<exists>p. detect_step st start i = Inr p \<Longrightarrow>
     detect_loop st start idxs found
       = Inr (found @ concat (map (\<lambda>i. case detect_step st start i of
                                           Inl e \<Rightarrow> [] | Inr p \<Rightarrow> p) idxs))"
proof (induction idxs arbitrary: found)
  case Nil
  show ?case by simp
next
  case (Cons i idxs)
  then obtain p where p: "detect_step st start i = Inr p" by auto
  from Cons have "detect_loop st start idxs (found @ p)
                    = Inr ((found @ p) @ concat (map (\<lambda>i. case detect_step st start i of
                                                              Inl e \<Rightarrow> [] | Inr p \<Rightarrow> p) idxs))"
    by simp
  then show ?case by (simp add: p)
qed

lemma detect_step_in_range:
  "i < length (historicalData st) \<Longrightarrow> \<exists>p. detect_step st start i = Inr p"
  by (simp add: detect_step_def Let_def js_nth_def split: option.splits)

lemma startIndex_value: "startIndex = 30"
  by (simp add: startIndex_def EMA_PERIOD_50_def EMA_PERIOD_20_def)

lemma detect_covered:
  assumes "length (ema20 (emaData st)) \<le> length (historicalData st)"
    and "2 \<le> length (ema20 (emaData st))" and "2 \<le> length (ema50 (emaData st))"
  shows "detectCrossovers st
           = Inr (st\<lparr>emaData := (emaData st)
                    \<lparr>crossovers := concat (map (pushed_at st)
                                       [startIndex..<length (ema20 (emaData st))])\<rparr>\<rparr>)"
proof -
  have "\<forall>i \<in> set [startIndex..<length (ema20 (emaData st))].
          \<exists>p. detect_step st startIndex i = Inr p"
    using assms(1) by (auto intro!: detect_step_in_range)
  from detect_loop_pushed [OF this, of "[]"]
  have "detect_loop st startIndex [startIndex..<length (ema20 (emaData st))] []
          = Inr (concat (map (pushed_at st) [startIndex..<length (ema20 (emaData st))]))"
    by (simp add: pushed_at_def [abs_def])
  then show ?thesis using assms(2,3) by (simp add: detectCrossovers_def)
qed

lemma nth_bars_from:
  "i < length cs \<Longrightarrow>
     bars_from d cs ! i
       = \<lparr> date = int (d + i), close = Some (cs ! i), high = Some (cs ! i), low = Some (cs ! i),
           open_price = Some (cs ! i), volume = Some 0 \<rparr>"
proof (induction d cs arbitrary: i rule: bars_from.induct)
  case (1 d)
  then show ?case by simp
next
  case (2 d c cs)
  then show ?case by (cases i) simp_all
qed

section \<open>The sample series with a spike\<close>

lemma list_all2_replicate_right:
  "list_all2 P xs (replicate n c) \<longleftrightarrow> length xs = n \<and> (\<forall>x \<in> set xs. P x c)"
proof (induction n arbitrary: xs)
  case 0
  show ?case by auto
next
  case (Suc n)
  show ?case by (cases xs) (auto simp: Suc)
qed

lemma concat_all_empty: "\<forall>x \<in> set xs. f x = [] \<Longrightarrow> concat (map f xs) = []"
  by (induction xs) simp_all

lemma spike_fields:
  "ema20 (emaData spike_tracker) = calculateEMA spike_closes 20"
  "ema50 (emaData spike_tracker) = calculateEMA spike_closes 50"
  "historicalData spike_tracker = bars_from 0 spike_closes"
proof -
  have len: "length (bars_from 0 spike_closes) = 69"
    by (simp add: length_bars_from spike_closes_def)
  have cp: "closePrices (tracker_with_bars (bars_from 0 spike_closes)) = spike_closes"
    by (rule closePrices_with_bars)
  have hd: "historicalData (tracker_with_bars (bars_from 0 spike_closes))
              = bars_from 0 spike_closes"
    by (simp add: tracker_with_bars_def)
  show "ema20 (emaData spike_tracker) = calculateEMA spike_closes 20"
    by (simp add: spike_tracker_def calculateEMAs_def cacheData_def Let_def hd len cp
        EMA_PERIOD_20_def)
  show "ema50 (emaData spike_tracker) = calculateEMA spike_closes 50"
    by (simp add: spike_tracker_def calculateEMAs_def cacheData_def Let_def hd len cp
        EMA_PERIOD_50_def)
  show "historicalData spike_tracker = bars_from 0 spike_closes"
    by (simp add: spike_tracker_def calculateEMAs_def cacheData_def Let_def hd len)
qed

lemma spike_slow: "calculateEMA spike_closes 50 = replicate 20 121"
proof -
  have t: "take 50 spike_closes = replicate 49 100 @ [1150]"
    and d: "drop 50 spike_closes = replicate 19 121"
    by (simp_all add: spike_closes_def)
  have s: "sum_list (take 50 spike_closes) / real 50 = 121"
    by (simp add: t sum_list_replicate)
  have "calculateEMA spike_closes 50 = 121 # ema_from (2 / (real 50 + 1)) 121 (replicate 19 121)"
    using calculateEMA_by_recursion [of 50 spike_closes]
    by (simp only: s d) (simp add: spike_closes_def)
  also have "ema_from (2 / (real 50 + 1)) 121 (replicate 19 121) = replicate 19 121"
    by (rule ema_from_constant) (simp add: algebra_simps)
  finally show ?thesis by (simp add: numeral_eq_Suc)
qed

lemma spike_fast:
  "calculateEMA spike_closes 20
     = replicate 30 100 @ [200] @ ema_from (2 / 21) 200 (replicate 19 121)"
proof -
  have t: "take 20 spike_closes = replicate 20 100"
    and d: "drop 20 spike_closes = replicate 29 100 @ [1150] @ replicate 19 121"
    by (simp_all add: spike_closes_def)
  have s: "sum_list (take 20 spike_closes) / real 20 = 100"
    by (simp add: t sum_list_replicate)
  have k: "2 / (real 20 + 1) = 2 / 21" by simp
  have c: "ema_from (2 / 21) 100 (replicate 29 100) = replicate 29 100"
    by (rule ema_from_constant) (simp add: algebra_simps)
  have "calculateEMA spike_closes 20
          = 100 # ema_from (2 / 21) 100 (replicate 29 100 @ [1150] @ replicate 19 121)"
    using calculateEMA_by_recursion [of 20 spike_closes]
    by (simp only: s d k) (simp add: spike_closes_def)
  also have "ema_from (2 / 21) 100 (replicate 29 100 @ [1150] @ replicate 19 121)
               = replicate 29 100 @ [200] @ ema_from (2 / 21) 200 (replicate 19 121)"
    by (simp add: ema_from_append c)
  finally show ?thesis by (simp add: numeral_eq_Suc)
qed

lemma spike_emas:
  "ema20 (emaData spike_tracker)
     = replicate 30 100 @ [200] @ ema_from (2 / 21) 200 (replicate 19 121)"
  "ema50 (emaData spike_tracker) = replicate 20 121"
  "length (ema20 (emaData spike_tracker)) = 50"
  "ema20 (emaData spike_tracker) ! 29 = 100"
  "ema20 (emaData spike_tracker) ! 30 = 200"
proof -
  show e20: "ema20 (emaData spike_tracker)
               = replicate 30 100 @ [200] @ ema_from (2 / 21) 200 (replicate 19 121)"
    by (simp only: spike_fields spike_fast)
  show "ema50 (emaData spike_tracker) = replicate 20 121"
    by (simp only: spike_fields spike_slow)
  show "length (ema20 (emaData spike_tracker)) = 50"
    by (simp add: e20 length_ema_from)
  show "ema20 (emaData spike_tracker) ! 29 = 100" by (simp add: e20 nth_append)
  show "ema20 (emaData spike_tracker) ! 30 = 200" by (simp add: e20 nth_append)
qed

lemma spike_step_30:
  assumes "emaData st = emaData spike_tracker"
  shows "current20_at st 30 = Some 200" and "prev20_at st 30 = Some 100"
    and "current50_at st startIndex 30 = Some 121" and "prev50_at st startIndex 30 = Some 121"
  using spike_emas(2-5)
  by (simp_all add: assms current20_at_def current50_at_def prev20_at_def prev50_at_def
      js_nth_def startIndex_value EMA_PERIOD_20_def)

section \<open>Missing values in \<open>detectCrossovers\<close>\<close>

text \<open>
  What the guard covers. When the bar list is at least as long as the fast EMA sequence (as
  it is when the sequences were computed from it), \<open>detectCrossovers\<close> does not throw, and
  what it records is what the steps \<open>startIndex \<le> i < ema20.length\<close> push, in order. Step
  \<open>i\<close> consults \<open>ema20[i]\<close>, \<open>ema20[i - 1]\<close>, \<open>ema50[i - 11]\<close> and \<open>ema50[i - 12]\<close>; if one
  of them is out of range or exactly 0 the step pushes nothing.
\<close>

theorem detectCrossovers_guarded:
  assumes "length (ema20 (emaData st)) \<le> length (historicalData st)"
  shows "(\<exists>st'. detectCrossovers st = Inr st')
       \<and> (2 \<le> length (ema20 (emaData st)) \<and> 2 \<le> length (ema50 (emaData st)) \<longrightarrow>
            detected (detectCrossovers st)
              = Inr (concat (map (pushed_at st) [startIndex..<length (ema20 (emaData st))])))
       \<and> (\<forall>i. falsy (current20_at st i) \<or> falsy (current50_at st startIndex i)
               \<or> falsy (prev20_at st i) \<or> falsy (prev50_at st startIndex i)
             \<longrightarrow> pushed_at st i = [])
       \<and> (\<forall>i. startIndex \<le> i \<longrightarrow>
               current20_at st i = js_nth (ema20 (emaData st)) i
             \<and> prev20_at st i = js_nth (ema20 (emaData st)) (i - 1)
             \<and> current50_at st startIndex i = js_nth (ema50 (emaData st)) (i - 11)
             \<and> prev50_at st startIndex i = js_nth (ema50 (emaData st)) (i - 12))
       \<and> (\<forall>xs j. falsy (js_nth xs j) \<longleftrightarrow> length xs \<le> j \<or> xs ! j = 0)"
proof -
  have total: "\<exists>st'. detectCrossovers st = Inr st'"
  proof (cases "2 \<le> length (ema20 (emaData st)) \<and> 2 \<le> length (ema50 (emaData st))")
    case True
    then show ?thesis using detect_covered [OF assms] by simp
  next
    case False
    then show ?thesis by (auto simp: detectCrossovers_def)
  qed
  have rec: "2 \<le> length (ema20 (emaData st)) \<and> 2 \<le> length (ema50 (emaData st)) \<longrightarrow>
            detected (detectCrossovers st)
              = Inr (concat (map (pushed_at st) [startIndex..<length (ema20 (emaData st))]))"
    using detect_covered [OF assms] by (simp add: detected_def)
  have skip: "\<forall>i. falsy (current20_at st i) \<or> falsy (current50_at st startIndex i)
               \<or> falsy (prev20_at st i) \<or> falsy (prev50_at st startIndex i)
             \<longrightarrow> pushed_at st i = []"
    by (simp add: pushed_at_def detect_step_falsy)
  have idx: "\<forall>i. startIndex \<le> i \<longrightarrow>
               current20_at st i = js_nth (ema20 (emaData st)) i
             \<and> prev20_at st i = js_nth (ema20 (emaData st)) (i - 1)
             \<and> current50_at st startIndex i = js_nth (ema50 (emaData st)) (i - 11)
             \<and> prev50_at st startIndex i = js_nth (ema50 (emaData st)) (i - 12)"
  proof (intro allI impI)
    fix i assume "startIndex \<le> i"
    then have i: "30 \<le> i" by (simp add: startIndex_value)
    then have "i - 30 + 20 - 1 = i - 11" "i - 30 + 20 - 2 = i - 12" by arith+
    then show "current20_at st i = js_nth (ema20 (emaData st)) i
             \<and> prev20_at st i = js_nth (ema20 (emaData st)) (i - 1)
             \<and> current50_at st startIndex i = js_nth (ema50 (emaData st)) (i - 11)
             \<and> prev50_at st startIndex i = js_nth (ema50 (emaData st)) (i - 12)"
      by (simp add: current20_at_def prev20_at_def current50_at_def prev50_at_def
          startIndex_value EMA_PERIOD_20_def)
  qed
  have fal: "\<forall>xs j. falsy (js_nth xs j) \<longleftrightarrow> length xs \<le> j \<or> xs ! j = 0"
    by (auto simp: falsy_def js_nth_def)
  from total rec skip idx fal show ?thesis by blast
qed

theorem detectCrossovers_guarded_witness:
  "detected (detectCrossovers
      (tracker_with_emas (bars_from 0 (replicate 31 5)) (replicate 30 1 @ [3]) (replicate 20 2)))
     = Inr [\<lparr> x_date = 30, x_type = BULLISH_CROSS, x_price = Some 5,
              x_ema20 = 3, x_ema50 = 2 \<rparr>]
   \<and> detected (detectCrossovers
      (tracker_with_emas (bars_from 0 (replicate 31 5)) (replicate 29 1 @ [0, 3]) (replicate 20 2)))
     = Inr []"
proof -
  let ?bars = "bars_from 0 (replicate 31 5)"
  let ?a = "tracker_with_emas ?bars (replicate 30 1 @ [3]) (replicate 20 2)"
  let ?b = "tracker_with_emas ?bars (replicate 29 1 @ [0, 3]) (replicate 20 2)"
  have fields:
    "\<And>bs f s. ema20 (emaData (tracker_with_emas bs f s)) = f"
    "\<And>bs f s. ema50 (emaData (tracker_with_emas bs f s)) = s"
    "\<And>bs f s. historicalData (tracker_with_emas bs f s) = bs"
    by (simp_all add: tracker_with_emas_def tracker_with_bars_def new_tracker_def)
  have bar30: "js_nth ?bars 30
                 = Some \<lparr> date = 30, close = Some 5, high = Some 5, low = Some 5,
                          open_price = Some 5, volume = Some 0 \<rparr>"
    by (simp add: js_nth_def length_bars_from nth_bars_from)
  have ha: "length (ema20 (emaData ?a)) \<le> length (historicalData ?a)"
    by (simp add: fields length_bars_from)
  have hb: "length (ema20 (emaData ?b)) \<le> length (historicalData ?b)"
    by (simp add: fields length_bars_from)
  note ta = detectCrossovers_guarded [OF ha] and tb = detectCrossovers_guarded [OF hb]
  have da: "detected (detectCrossovers ?a)
          = Inr (concat (map (pushed_at ?a) [startIndex..<length (ema20 (emaData ?a))]))"
    using ta by (simp add: fields)
  have ia: "[startIndex..<length (ema20 (emaData ?a))] = [30]"
    by (simp add: fields startIndex_value)
  have pa: "pushed_at ?a 30 = [\<lparr> x_date = 30, x_type = BULLISH_CROSS, x_price = Some 5,
                                   x_ema20 = 3, x_ema50 = 2 \<rparr>]"
  proof -
    have look: "current20_at ?a 30 = Some 3" "prev20_at ?a 30 = Some 1"
      "current50_at ?a startIndex 30 = Some 2" "prev50_at ?a startIndex 30 = Some 2"
      by (simp_all add: current20_at_def current50_at_def prev20_at_def prev50_at_def fields
          js_nth_def startIndex_value EMA_PERIOD_20_def nth_append)
    show ?thesis
      by (simp add: pushed_at_def detect_step_def Let_def look fields bar30 falsy_def
          to_number_def crossoverType_def)
  qed
  have a: "detected (detectCrossovers ?a)
             = Inr [\<lparr> x_date = 30, x_type = BULLISH_CROSS, x_price = Some 5,
                      x_ema20 = 3, x_ema50 = 2 \<rparr>]"
    by (simp only: da ia pa list.map concat.simps append_Nil2)
  have "falsy (prev20_at ?b 30)"
    by (simp add: prev20_at_def fields js_nth_def falsy_def nth_append)
  with tb have "pushed_at ?b 30 = []" by blast
  moreover have "detected (detectCrossovers ?b)
          = Inr (concat (map (pushed_at ?b) [startIndex..<length (ema20 (emaData ?b))]))"
    using tb by (simp add: fields)
  moreover have "[startIndex..<length (ema20 (emaData ?b))] = [30]"
    by (simp add: fields startIndex_value)
  ultimately have b: "detected (detectCrossovers ?b) = Inr []" by simp
  from a b show ?thesis by simp
qed

text \<open>
  C10. The EMA sequences of the 69 bars of \<open>spike_closes\<close> stay in the state when a later
  refresh brings 20 bars only, since \<open>calculateEMAs\<close> returns early on fewer than 50 bars.
  Step 30 of \<open>detectCrossovers\<close> then finds its four EMA values present and non-zero and
  a crossover between them, reads \<open>this.historicalData[30].date\<close> in a list of 20 bars, and
  throws: the method is not total over bar lists.
\<close>

theorem detectCrossovers_throws_on_stale_emas:
  "emaData stale_tracker = emaData spike_tracker
   \<and> length (ema20 (emaData stale_tracker)) = 50
   \<and> length (ema50 (emaData stale_tracker)) = 20
   \<and> length (historicalData stale_tracker) = 20
   \<and> detectCrossovers stale_tracker = Inl TypeError"
proof -
  have st: "stale_tracker = spike_tracker \<lparr> historicalData := bars_from 0 (replicate 20 100) \<rparr>"
    by (simp add: stale_tracker_def calculateEMAs_def length_bars_from)
  have e: "emaData stale_tracker = emaData spike_tracker" by (simp add: st)
  have bars: "length (historicalData stale_tracker) = 20"
    by (simp add: st length_bars_from)
  have l20: "length (ema20 (emaData stale_tracker)) = 50" by (simp only: e spike_emas(3))
  have l50: "length (ema50 (emaData stale_tracker)) = 20" by (simp add: e spike_emas(2))
  note look = spike_step_30 [OF e]
  have "js_nth (historicalData stale_tracker) 30 = None"
    by (simp add: js_nth_def bars)
  then have step: "detect_step stale_tracker startIndex 30 = Inl TypeError"
    by (simp add: detect_step_def Let_def look falsy_def to_number_def crossoverType_def)
  have "[startIndex..<length (ema20 (emaData stale_tracker))] = 30 # [31..<50]"
    by (simp add: startIndex_value l20 upt_conv_Cons)
  then have "detect_loop stale_tracker startIndex
               [startIndex..<length (ema20 (emaData stale_tracker))] [] = Inl TypeError"
    by (simp only: detect_loop.simps step sum.case)
  then have "detectCrossovers stale_tracker = Inl TypeError"
    using l20 l50 by (simp add: detectCrossovers_def)
  with e l20 l50 bars show ?thesis by simp
qed

section \<open>Null closes and the next refresh\<close>

lemma chart_of_closes_fields:
  "r_close (chart_of_closes cs) = cs"
  "length (r_timestamp (chart_of_closes cs)) = length cs"
  by (simp_all add: chart_of_closes_def)

lemma chart_of_closes_valid:
  "length cs \<le> 100000 \<Longrightarrow> list_all valid_time (r_timestamp (chart_of_closes cs))"
  by (auto simp: chart_of_closes_def list_all_iff valid_time_def)

lemma processed_closes:
  assumes "length (r_close result) = length (r_timestamp result)"
    and "list_all valid_time (r_timestamp result)"
  shows "map close (historicalData (processHistoricalData (Some result) st))
           = filter (\<lambda>c. c \<noteq> None) (r_close result)"
proof -
  have "map close (historicalData (processHistoricalData (Some result) st))
          = map (\<lambda>i. r_close result ! i)
              (filter (\<lambda>i. r_close result ! i \<noteq> None) [0..<length (r_close result)])"
    by (simp add: processed_bars [OF assms(2)] comp_def historical_item_def assms(1))
  also have "\<dots> = filter (\<lambda>c. c \<noteq> None) (r_close result)"
    by (rule filter_by_index [where P = "\<lambda>c. c \<noteq> None" and xs = "r_close result"])
  finally show ?thesis .
qed

lemma stale_emas_throw:
  assumes "emaData st = emaData spike_tracker" and "length (historicalData st) \<le> 30"
  shows "detectCrossovers st = Inl TypeError"
proof -
  have l20: "length (ema20 (emaData st)) = 50" by (simp only: assms(1) spike_emas(3))
  have l50: "length (ema50 (emaData st)) = 20" by (simp add: assms(1) spike_emas(2))
  note look = spike_step_30 [OF assms(1)]
  have "js_nth (historicalData st) 30 = None"
    using assms(2) by (simp add: js_nth_def)
  then have step: "detect_step st startIndex 30 = Inl TypeError"
    by (simp add: detect_step_def Let_def look falsy_def to_number_def crossoverType_def)
  have "[startIndex..<length (ema20 (emaData st))] = 30 # [31..<50]"
    by (simp add: startIndex_value l20 upt_conv_Cons)
  then have "detect_loop st startIndex [startIndex..<length (ema20 (emaData st))] []
               = Inl TypeError"
    by (simp only: detect_loop.simps step sum.case)
  then show ?thesis using l20 l50 by (simp add: detectCrossovers_def)
qed

lemma detect_step_constant:
  assumes "set (ema20 (emaData st)) \<subseteq> {c}" and "set (ema50 (emaData st)) \<subseteq> {c}"
  shows "detect_step st start i = Inr []"
proof -
  have v: "\<And>xs j x. set xs \<subseteq> {c} \<Longrightarrow> js_nth xs j = Some x \<Longrightarrow> x = c"
    by (auto simp: js_nth_def split: if_splits dest: nth_mem)
  show ?thesis
  proof (cases "falsy (current20_at st i) \<or> falsy (current50_at st start i)
                  \<or> falsy (prev20_at st i) \<or> falsy (prev50_at st start i)")
    case True
    then show ?thesis by (rule detect_step_falsy)
  next
    case False
    then obtain a b p q where got: "current20_at st i = Some a" "current50_at st start i = Some b"
      "prev20_at st i = Some p" "prev50_at st start i = Some q"
      by (auto simp: falsy_def)
    then have "a = c" "b = c" "p = c" "q = c"
      using assms v unfolding current20_at_def current50_at_def prev20_at_def prev50_at_def
      by blast+
    then show ?thesis
      using False by (simp add: detect_step_def Let_def got to_number_def crossoverType_def)
  qed
qed

lemma detect_constant:
  assumes "set (ema20 (emaData st)) \<subseteq> {c}" and "set (ema50 (emaData st)) \<subseteq> {c}"
    and "2 \<le> length (ema20 (emaData st))" and "2 \<le> length (ema50 (emaData st))"
  shows "detected (detectCrossovers st) = Inr []"
proof -
  have "detect_loop st startIndex [startIndex..<length (ema20 (emaData st))] [] = Inr []"
    by (intro detect_loop_all_skipped ballI detect_step_constant [OF assms(1,2)])
  then show ?thesis using assms(3,4) by (simp add: detectCrossovers_def detected_def)
qed

text \<open>
  C9. The tracker holds the EMA sequences of the 69 bars of \<open>spike_closes\<close>, and the next
  response has 69 days of which the last 49 have a \<open>null\<close> close. \<open>processHistoricalData\<close>
  filters them out and keeps 20 bars; \<open>calculateEMAs\<close> returns early on fewer than 50 bars
  and leaves the old sequences; \<open>detectCrossovers\<close> then reads \<open>this.historicalData[30]\<close>
  at step 30 and throws, and the refresh ends there. The response with a close of 100 on each of the 69 days is processed
  to 69 bars, and \<open>detectCrossovers\<close> returns with no crossover.
\<close>

theorem null_closes_make_refresh_throw:
  "length (r_close null_chart) = length (r_timestamp null_chart)
   \<and> list_all valid_time (r_timestamp null_chart)
   \<and> map close (historicalData (processHistoricalData (Some null_chart) spike_tracker))
        = replicate 20 (Some 100)
   \<and> emaData (after_refresh null_chart) = emaData spike_tracker
   \<and> detectCrossovers (after_refresh null_chart) = Inl TypeError
   \<and> length (historicalData (after_refresh clean_chart)) = 69
   \<and> detected (detectCrossovers (after_refresh clean_chart)) = Inr []"
proof -
  let ?n = "processHistoricalData (Some null_chart) spike_tracker"
  let ?c = "processHistoricalData (Some clean_chart) spike_tracker"
  have ln: "length (r_close null_chart) = length (r_timestamp null_chart)"
    and lc: "length (r_close clean_chart) = length (r_timestamp clean_chart)"
    by (simp_all add: null_chart_def clean_chart_def chart_of_closes_fields)
  have vn: "list_all valid_time (r_timestamp null_chart)"
    and vc: "list_all valid_time (r_timestamp clean_chart)"
    unfolding null_chart_def clean_chart_def by (rule chart_of_closes_valid, simp)+
  have closes_n: "map close (historicalData ?n) = replicate 20 (Some 100)"
    by (simp add: processed_closes [OF ln vn]) (simp add: null_chart_def chart_of_closes_fields)
  have closes_c: "map close (historicalData ?c) = replicate 69 (Some 100)"
    by (simp add: processed_closes [OF lc vc]) (simp add: clean_chart_def chart_of_closes_fields)
  have len_n: "length (historicalData ?n) = 20"
    using closes_n by (metis length_map length_replicate)
  have len_c: "length (historicalData ?c) = 69"
    using closes_c by (metis length_map length_replicate)
  have early: "after_refresh null_chart = ?n"
    by (simp add: after_refresh_def calculateEMAs_def len_n)
  have ema_n: "emaData (after_refresh null_chart) = emaData spike_tracker"
    by (simp add: early processed_frame)
  have throws: "detectCrossovers (after_refresh null_chart) = Inl TypeError"
    by (rule stale_emas_throw [OF ema_n]) (simp add: early len_n)
  have cp: "closePrices ?c = replicate 69 100"
  proof -
    have "closePrices ?c = map to_number (map close (historicalData ?c))"
      by (simp add: closePrices_def comp_def)
    then show ?thesis by (simp add: closes_c to_number_def)
  qed
  have e20: "ema20 (emaData (after_refresh clean_chart)) = replicate 50 100"
    by (simp add: after_refresh_def calculateEMAs_def cacheData_def Let_def len_c cp
        EMA_PERIOD_20_def calculateEMA_constant)
  have e50: "ema50 (emaData (after_refresh clean_chart)) = replicate 20 100"
    by (simp add: after_refresh_def calculateEMAs_def cacheData_def Let_def len_c cp
        EMA_PERIOD_50_def calculateEMA_constant)
  have bars_c: "length (historicalData (after_refresh clean_chart)) = 69"
    by (simp add: after_refresh_def calculateEMAs_def cacheData_def Let_def len_c)
  have quiet: "detected (detectCrossovers (after_refresh clean_chart)) = Inr []"
    by (rule detect_constant [where c = 100]) (simp_all add: e20 e50)
  from ln vn closes_n ema_n throws bars_c quiet show ?thesis by simp
qed

section \<open>Which bars a step of \<open>detectCrossovers\<close> pairs\<close>

text \<open>
  C1. Element \<open>j\<close> of an EMA sequence of period \<open>p\<close> is the average at bar \<open>j + p - 1\<close>, so
  \<open>ema20[i]\<close> and \<open>ema50[i - 30]\<close> belong to the same bar. The loop pairs \<open>ema20[i]\<close> with
  \<open>ema50[i - 11]\<close>, a bar 19 days later, and dates the event with bar \<open>i\<close>, 19 days earlier.
  On the 69 bars of \<open>spike_closes\<close> the fast EMA is above the slow EMA on each of the 20 bars
  that have both (bars 49 to 68), so the fast line never crosses the slow one; the method
  records a bullish crossover dated bar 30, from \<open>ema20[29], ema20[30]\<close> (bars 48, 49)
  against \<open>ema50[18], ema50[19]\<close> (bars 67, 68). On the example of the claim, fast
  \<open>[10,12,9,11]\<close> and slow \<open>[11,10]\<close>, the loop starts at index 30 and compares nothing,
  although the pairs of the two common days make a bullish crossover.
\<close>

theorem detectCrossovers_pairs_bars_19_apart:
  "length (ema20 (emaData spike_tracker)) = 50
   \<and> ema20 (emaData spike_tracker) ! 29 = 100
   \<and> ema20 (emaData spike_tracker) ! 30 = 200
   \<and> ema50 (emaData spike_tracker) = replicate 20 121
   \<and> list_all2 (\<lambda>fast slow. fast > slow)
        (drop 30 (ema20 (emaData spike_tracker))) (ema50 (emaData spike_tracker))
   \<and> detected (detectCrossovers spike_tracker)
        = Inr [\<lparr> x_date = 30, x_type = BULLISH_CROSS, x_price = Some 100,
                 x_ema20 = 200, x_ema50 = 121 \<rparr>]
   \<and> detected (detectCrossovers
        (tracker_with_emas (bars_from 0 [1, 2, 3, 4]) [10, 12, 9, 11] [11, 10])) = Inr []
   \<and> crossoverType 9 11 11 10 = Some BULLISH_CROSS"
proof -
  let ?S = spike_tracker
  let ?W = "ema_from (2 / 21) 200 (replicate 19 121)"
  have e20: "ema20 (emaData ?S) = replicate 30 100 @ [200] @ ?W"
    by (rule spike_emas)
  have e50: "ema50 (emaData ?S) = replicate 20 121"
    by (rule spike_emas)
  have lenW: "length ?W = 19" by (simp add: length_ema_from)
  have aboveW: "\<forall>x \<in> set ?W. 121 < x"
    by (rule ema_from_above) simp_all
  have len20: "length (ema20 (emaData ?S)) = 50" by (rule spike_emas)
  have at29: "ema20 (emaData ?S) ! 29 = 100" by (rule spike_emas)
  have at30: "ema20 (emaData ?S) ! 30 = 200" by (rule spike_emas)
  have above: "list_all2 (\<lambda>fast slow. fast > slow)
                 (drop 30 (ema20 (emaData ?S))) (ema50 (emaData ?S))"
    using aboveW by (simp add: e20 e50 list_all2_replicate_right lenW)
  have bars: "length (historicalData ?S) = 69"
    by (simp add: spike_fields length_bars_from spike_closes_def)
  have bar30: "js_nth (historicalData ?S) 30
                 = Some \<lparr> date = 30, close = Some 100, high = Some 100, low = Some 100,
                          open_price = Some 100, volume = Some 0 \<rparr>"
  proof -
    have "spike_closes ! 30 = 100" by (simp add: spike_closes_def nth_append)
    moreover have "30 < length spike_closes" by (simp add: spike_closes_def)
    ultimately show ?thesis
      by (simp add: js_nth_def spike_fields length_bars_from nth_bars_from)
  qed
  note look = spike_step_30 [OF refl]
  have first: "pushed_at ?S 30 = [\<lparr> x_date = 30, x_type = BULLISH_CROSS, x_price = Some 100,
                                     x_ema20 = 200, x_ema50 = 121 \<rparr>]"
    by (simp add: pushed_at_def detect_step_def Let_def look bar30 falsy_def to_number_def
        crossoverType_def)
  have later: "\<forall>i \<in> set [31..<50]. pushed_at ?S i = []"
  proof
    fix i assume "i \<in> set [31..<50]"
    then have "i \<in> {31..<50}" by (simp only: set_upt)
    then have "31 \<le> i" by (simp only: atLeastLessThan_iff)
    then have "20 \<le> i - 30 + 20 - 1" by arith
    then have "current50_at ?S startIndex i = None"
      by (simp add: current50_at_def e50 js_nth_def startIndex_value EMA_PERIOD_20_def)
    then have "detect_step ?S startIndex i = Inr []"
      by (intro detect_step_falsy) (simp add: falsy_def)
    then show "pushed_at ?S i = []" by (simp add: pushed_at_def)
  qed
  have cover: "length (ema20 (emaData ?S)) \<le> length (historicalData ?S)"
    by (simp add: len20 bars)
  have "[startIndex..<length (ema20 (emaData ?S))] = 30 # [31..<50]"
    by (simp add: startIndex_value len20 upt_conv_Cons)
  then have "concat (map (pushed_at ?S) [startIndex..<length (ema20 (emaData ?S))])
               = pushed_at ?S 30 @ concat (map (pushed_at ?S) [31..<50])"
    by simp
  also have "\<dots> = pushed_at ?S 30"
    by (simp only: concat_all_empty [OF later] append_Nil2)
  finally have "detectCrossovers ?S
                  = Inr (?S\<lparr>emaData := (emaData ?S)\<lparr>crossovers := pushed_at ?S 30\<rparr>\<rparr>)"
    using detect_covered [OF cover] by (simp add: len20 e50)
  then have found: "detected (detectCrossovers ?S)
                      = Inr [\<lparr> x_date = 30, x_type = BULLISH_CROSS, x_price = Some 100,
                               x_ema20 = 200, x_ema50 = 121 \<rparr>]"
    by (simp add: detected_def first)
  have example: "detected (detectCrossovers
                   (tracker_with_emas (bars_from 0 [1, 2, 3, 4]) [10, 12, 9, 11] [11, 10]))
                   = Inr []"
    by (simp add: detected_def detectCrossovers_def tracker_with_emas_def tracker_with_bars_def
        new_tracker_def startIndex_value)
  have pair: "crossoverType 9 11 11 10 = Some BULLISH_CROSS"
    by (simp add: crossoverType_def)
  from len20 at29 at30 e50 above found example pair show ?thesis by blast
qed

end
